theory Spec2Isabelle
  imports
    Complex_Main
    "HOL-Library.Sublist"
    "HOL-Library.Char_ord"
    "HOL-Library.List_Lexorder"
    "HOL-Library.Product_Lexorder"
begin

section \<open>JavaScript values\<close>

text \<open>
  The service of \<^verbatim>\<open>src/server.js\<close> is an Express application over a PostgreSQL
  connection pool. Its handlers receive parsed query strings, path parameters and JSON
  bodies, and send statement texts with positional parameters to the pool.

  A JavaScript number is modelled by \<open>jsnum\<close>: not-a-number, the two infinities, or a
  finite value, kept as an exact rational. The rounding of binary64 is not modelled
  (nor its overflow to infinity and its underflow to zero), and neither is the sign of
  zero, which no comparison of the program observes; the model agrees with the program
  wherever the values involved are exactly representable, in particular on integers of
  magnitude up to \<open>2 ^ 53\<close>.
\<close>

datatype jsnum = NaN | PosInf | NegInf | Fin rat

datatype jsval =
    JUndefined
  | JNull
  | JBool bool
  | JNum jsnum
  | JStr string
  | JArr "jsval list"
  | JObj "(string \<times> jsval) list"

text \<open>The subtraction and the multiplication of numbers (\<^verbatim>\<open>a - b\<close>, \<^verbatim>\<open>a * b\<close>).\<close>

fun js_neg :: "jsnum \<Rightarrow> jsnum" where
  "js_neg NaN = NaN"
| "js_neg PosInf = NegInf"
| "js_neg NegInf = PosInf"
| "js_neg (Fin r) = Fin (- r)"

fun js_add :: "jsnum \<Rightarrow> jsnum \<Rightarrow> jsnum" where
  "js_add NaN _ = NaN"
| "js_add _ NaN = NaN"
| "js_add PosInf NegInf = NaN"
| "js_add NegInf PosInf = NaN"
| "js_add PosInf _ = PosInf"
| "js_add NegInf _ = NegInf"
| "js_add _ PosInf = PosInf"
| "js_add _ NegInf = NegInf"
| "js_add (Fin a) (Fin b) = Fin (a + b)"

definition js_sub :: "jsnum \<Rightarrow> jsnum \<Rightarrow> jsnum" where
  "js_sub a b = js_add a (js_neg b)"

definition inf_of_sign :: "bool \<Rightarrow> jsnum" where
  "inf_of_sign positive = (if positive then PosInf else NegInf)"

fun js_mul :: "jsnum \<Rightarrow> jsnum \<Rightarrow> jsnum" where
  "js_mul NaN _ = NaN"
| "js_mul _ NaN = NaN"
| "js_mul (Fin a) (Fin b) = Fin (a * b)"
| "js_mul (Fin a) PosInf = (if a = 0 then NaN else inf_of_sign (0 < a))"
| "js_mul (Fin a) NegInf = (if a = 0 then NaN else inf_of_sign (a < 0))"
| "js_mul PosInf (Fin b) = (if b = 0 then NaN else inf_of_sign (0 < b))"
| "js_mul NegInf (Fin b) = (if b = 0 then NaN else inf_of_sign (b < 0))"
| "js_mul PosInf PosInf = PosInf"
| "js_mul PosInf NegInf = NegInf"
| "js_mul NegInf PosInf = NegInf"
| "js_mul NegInf NegInf = PosInf"

text \<open>The comparison \<^verbatim>\<open>a >= b\<close> of numbers: false as soon as one side is not a number.\<close>

fun js_ge :: "jsnum \<Rightarrow> jsnum \<Rightarrow> bool" where
  "js_ge NaN _ = False"
| "js_ge _ NaN = False"
| "js_ge PosInf _ = True"
| "js_ge _ NegInf = True"
| "js_ge NegInf _ = False"
| "js_ge _ PosInf = False"
| "js_ge (Fin a) (Fin b) = (b \<le> a)"

section \<open>Reading a number from a string\<close>

text \<open>
  Strings are lists of 8-bit characters, read as code units below 256. White space is
  the white space and the line terminators of the language that fall in this range.
\<close>

definition is_ws :: "char \<Rightarrow> bool" where
  "is_ws c = (of_char c \<in> {9, 10, 11, 12, 13, 32, 160 :: nat})"

definition is_digit :: "char \<Rightarrow> bool" where
  "is_digit c = (48 \<le> (of_char c :: nat) \<and> (of_char c :: nat) \<le> 57)"

definition digit_val :: "char \<Rightarrow> nat" where
  "digit_val c = of_char c - 48"

definition digits_val :: "string \<Rightarrow> nat" where
  "digits_val s = foldl (\<lambda>a c. 10 * a + digit_val c) 0 s"

definition trim :: "string \<Rightarrow> string" where
  "trim s = rev (dropWhile is_ws (rev (dropWhile is_ws s)))"

text \<open>The value \<open>m * 10 ^ e\<close> of a decimal literal with digits \<open>m\<close> and exponent \<open>e\<close>.\<close>

definition mk_dec :: "nat \<Rightarrow> int \<Rightarrow> rat" where
  "mk_dec m e = (if 0 \<le> e then of_nat m * 10 ^ nat e else of_nat m / 10 ^ nat (- e))"

text \<open>
  An exponent part at the head of the string: \<^verbatim>\<open>e\<close> or \<^verbatim>\<open>E\<close>, an optional sign, one or
  more digits. The result is the exponent and the rest of the string.
\<close>

definition scan_exponent :: "string \<Rightarrow> (int \<times> string) option" where
  "scan_exponent s =
     (case s of
        [] \<Rightarrow> None
      | c # r \<Rightarrow>
          if c = CHR ''e'' \<or> c = CHR ''E'' then
            (let (sg, r1) =
                   (case r of
                      [] \<Rightarrow> (1, r)
                    | d # r' \<Rightarrow>
                        if d = CHR ''+'' then (1, r')
                        else if d = CHR ''-'' then (- 1, r')
                        else (1, r));
                 ds = takeWhile is_digit r1
             in if ds = [] then None
                else Some (sg * int (digits_val ds), dropWhile is_digit r1))
          else None)"

text \<open>
  The longest prefix that is an unsigned decimal literal of the string grammar:
  \<^verbatim>\<open>Infinity\<close>, or digits with an optional fraction and an optional exponent, or a
  fraction that starts with the point.
\<close>

definition scan_unsigned :: "string \<Rightarrow> (jsnum \<times> string) option" where
  "scan_unsigned s =
     (if prefix ''Infinity'' s then Some (PosInf, drop 8 s)
      else
        let ip = takeWhile is_digit s;
            r1 = dropWhile is_digit s;
            (fp, r2) =
              (case r1 of
                 [] \<Rightarrow> ([], r1)
               | c # r \<Rightarrow>
                   if c = CHR ''.'' then (takeWhile is_digit r, dropWhile is_digit r)
                   else ([], r1))
        in if ip = [] \<and> fp = [] then None
           else
             let (e, r3) = (case scan_exponent r2 of None \<Rightarrow> (0, r2) | Some x \<Rightarrow> x)
             in Some (Fin (mk_dec (digits_val (ip @ fp)) (e - int (length fp))), r3))"

definition scan_decimal :: "string \<Rightarrow> (jsnum \<times> string) option" where
  "scan_decimal s =
     (case s of
        [] \<Rightarrow> None
      | c # r \<Rightarrow>
          if c = CHR ''+'' then scan_unsigned r
          else if c = CHR ''-'' then map_option (\<lambda>(v, t). (js_neg v, t)) (scan_unsigned r)
          else scan_unsigned s)"

text \<open>The literals with a radix prefix: \<^verbatim>\<open>0x\<close>, \<^verbatim>\<open>0o\<close>, \<^verbatim>\<open>0b\<close>, in either case.\<close>

definition radix_digit :: "char \<Rightarrow> nat option" where
  "radix_digit c =
     (let n = (of_char c :: nat)
      in if 48 \<le> n \<and> n \<le> 57 then Some (n - 48)
         else if 97 \<le> n \<and> n \<le> 102 then Some (n - 87)
         else if 65 \<le> n \<and> n \<le> 70 then Some (n - 55)
         else None)"

definition radix_val :: "nat \<Rightarrow> string \<Rightarrow> nat option" where
  "radix_val b s =
     (if s \<noteq> [] \<and> list_all (\<lambda>c. case radix_digit c of None \<Rightarrow> False | Some d \<Rightarrow> d < b) s
      then Some (foldl (\<lambda>a c. b * a + the (radix_digit c)) 0 s)
      else None)"

definition scan_radix :: "string \<Rightarrow> nat option" where
  "scan_radix s =
     (case s of
        z # x # r \<Rightarrow>
          if z = CHR ''0'' then
            (if x = CHR ''x'' \<or> x = CHR ''X'' then radix_val 16 r
             else if x = CHR ''o'' \<or> x = CHR ''O'' then radix_val 8 r
             else if x = CHR ''b'' \<or> x = CHR ''B'' then radix_val 2 r
             else None)
          else None
      | _ \<Rightarrow> None)"

text \<open>
  \<^verbatim>\<open>Number(s)\<close> on a string: white space is trimmed at both ends, the empty string is
  zero, and the whole of what remains has to be a numeric literal.
\<close>

definition StringToNumber :: "string \<Rightarrow> jsnum" where
  "StringToNumber s =
     (let t = trim s
      in if t = [] then Fin 0
         else case scan_radix t of
                Some n \<Rightarrow> Fin (of_nat n)
              | None \<Rightarrow>
                  (case scan_decimal t of
                     Some (v, []) \<Rightarrow> v
                   | _ \<Rightarrow> NaN))"

text \<open>
  \<^verbatim>\<open>parseFloat(s)\<close> on a string: leading white space is skipped and the longest prefix
  that is a decimal literal is read; whatever follows it is ignored.
\<close>

definition parseFloat_str :: "string \<Rightarrow> jsnum" where
  "parseFloat_str s =
     (case scan_decimal (dropWhile is_ws s) of None \<Rightarrow> NaN | Some (v, _) \<Rightarrow> v)"

section \<open>Query parameters\<close>

text \<open>
  The query parser gives, for each key of the query string, nothing when the key is
  absent, a string, or the list of the strings when the key is repeated. (The nested
  objects that the extended parser builds from bracketed keys are not modelled.)
\<close>

datatype qval = QStr string | QArr "string list"

fun intercalate :: "string \<Rightarrow> string list \<Rightarrow> string" where
  "intercalate sep [] = []"
| "intercalate sep [x] = x"
| "intercalate sep (x # y # ys) = x @ sep @ intercalate sep (y # ys)"

text \<open>
  The conversions that the language applies to such a value: to a string (an array is
  joined with commas), to a number (through the string), to a truth value (only the
  empty string is falsy; an array is truthy).
\<close>

fun q_ToString :: "qval \<Rightarrow> string" where
  "q_ToString (QStr s) = s"
| "q_ToString (QArr xs) = intercalate '','' xs"

definition q_ToNumber :: "qval \<Rightarrow> jsnum" where
  "q_ToNumber v = StringToNumber (q_ToString v)"

fun q_truthy :: "qval \<Rightarrow> bool" where
  "q_truthy (QStr s) = (s \<noteq> [])"
| "q_truthy (QArr xs) = True"

fun q_js :: "qval \<Rightarrow> jsval" where
  "q_js (QStr s) = JStr s"
| "q_js (QArr xs) = JArr (map JStr xs)"

text \<open>A parameter that may be absent is truthy when it is there and truthy.\<close>

definition present :: "qval option \<Rightarrow> bool" where
  "present p = (case p of None \<Rightarrow> False | Some v \<Rightarrow> q_truthy v)"

definition raw :: "qval option \<Rightarrow> jsval" where
  "raw p = (case p of None \<Rightarrow> JUndefined | Some v \<Rightarrow> q_js v)"

section \<open>The price validator\<close>

text \<open>
  \<^verbatim>\<open>function validatePrice(price) { return !isNaN(price) && parseFloat(price) >= 0; }\<close>
  Here \<^verbatim>\<open>isNaN\<close> converts its argument to a number and \<^verbatim>\<open>parseFloat\<close> converts it to
  a string first.
\<close>

definition isNaN :: "qval \<Rightarrow> bool" where
  "isNaN v = (q_ToNumber v = NaN)"

definition parseFloat :: "qval \<Rightarrow> jsnum" where
  "parseFloat v = parseFloat_str (q_ToString v)"

definition validatePrice :: "qval \<Rightarrow> bool" where
  "validatePrice price = (\<not> isNaN price \<and> js_ge (parseFloat price) (Fin 0))"

section \<open>Requests, responses and the connection pool\<close>

text \<open>
  A response is the status code and the JSON body given to \<^verbatim>\<open>res.json\<close> (the body
  \<open>JUndefined\<close> stands for \<^verbatim>\<open>res.json(undefined)\<close>).
\<close>

record response =
  res_status :: nat
  res_body :: jsval

definition json :: "nat \<Rightarrow> jsval \<Rightarrow> response" where
  "json code b = \<lparr>res_status = code, res_body = b\<rparr>"

text \<open>
  A row of a result, and the body of a request, are objects: lists of properties.
  Reading a property that is not there gives \<^verbatim>\<open>undefined\<close>.
\<close>

type_synonym props = "(string \<times> jsval) list"

definition field :: "props \<Rightarrow> string \<Rightarrow> jsval" where
  "field obj k = (case map_of obj k of None \<Rightarrow> JUndefined | Some v \<Rightarrow> v)"

text \<open>
  The store is outside the program. A store over states \<open>'s\<close> answers a statement text
  with its parameters by the rows of the result or by an error message, and a new state.
  The connection keeps, beside the state of the store, the statements sent so far, so
  that a handler that sends nothing leaves the log as it was.
\<close>

type_synonym 's store = "string \<Rightarrow> jsval list \<Rightarrow> 's \<Rightarrow> (string + props list) \<times> 's"

record 's conn =
  db :: 's
  log :: "(string \<times> jsval list) list"

definition pool_query ::
  "'s store \<Rightarrow> string \<Rightarrow> jsval list \<Rightarrow> 's conn \<Rightarrow> (string + props list) \<times> 's conn" where
  "pool_query Q text params c =
     (case Q text params (db c) of
        (r, d) \<Rightarrow> (r, \<lparr>db = d, log = log c @ [(text, params)]\<rparr>))"

text \<open>The error-handling middleware, reached through \<^verbatim>\<open>next(err)\<close>.\<close>

definition internal_error :: "string \<Rightarrow> response" where
  "internal_error message =
     json 500 (JObj [(''error'', JStr ''Internal server error''), (''details'', JStr message)])"

definition error_body :: "string \<Rightarrow> jsval" where
  "error_body message = JObj [(''error'', JStr message)]"

text \<open>\<^verbatim>\<open>result.rows\<close> and \<^verbatim>\<open>result.rows[0]\<close> as JSON.\<close>

definition rows_json :: "props list \<Rightarrow> jsval" where
  "rows_json rows = JArr (map JObj rows)"

definition first_row_json :: "props list \<Rightarrow> jsval" where
  "first_row_json rows = (case rows of [] \<Rightarrow> JUndefined | r # _ \<Rightarrow> JObj r)"

text \<open>The decimal digits of a natural number, as string concatenation writes it.\<close>

definition digit_char :: "nat \<Rightarrow> char" where
  "digit_char n = ''0123456789'' ! n"

fun show_nat :: "nat \<Rightarrow> string" where
  "show_nat n =
     (if n < 10 then [digit_char n]
      else show_nat (n div 10) @ [digit_char (n mod 10)])"

declare show_nat.simps [simp del]

section \<open>Listing products\<close>

text \<open>
  The query of \<^verbatim>\<open>GET /api/products\<close>. The handler reads seven keys; \<^verbatim>\<open>page\<close> and
  \<^verbatim>\<open>limit\<close> have numbers as defaults, \<^verbatim>\<open>sort_by\<close> and \<^verbatim>\<open>order\<close> have strings.
\<close>

record query =
  q_page :: "qval option"
  q_limit :: "qval option"
  q_category_id :: "qval option"
  q_min_price :: "qval option"
  q_max_price :: "qval option"
  q_sort_by :: "qval option"
  q_order :: "qval option"

text \<open>A destructured parameter whose default is a number.\<close>

datatype pval = Default jsnum | Given qval

definition destructure :: "jsnum \<Rightarrow> qval option \<Rightarrow> pval" where
  "destructure d p = (case p of None \<Rightarrow> Default d | Some v \<Rightarrow> Given v)"

fun p_ToNumber :: "pval \<Rightarrow> jsnum" where
  "p_ToNumber (Default n) = n"
| "p_ToNumber (Given v) = q_ToNumber v"

fun p_js :: "pval \<Rightarrow> jsval" where
  "p_js (Default n) = JNum n"
| "p_js (Given v) = q_js v"

definition with_default :: "string \<Rightarrow> qval option \<Rightarrow> qval" where
  "with_default d p = (case p of None \<Rightarrow> QStr d | Some v \<Rightarrow> v)"

definition invalid_price :: "qval option \<Rightarrow> bool" where
  "invalid_price p = (case p of None \<Rightarrow> False | Some v \<Rightarrow> q_truthy v \<and> \<not> validatePrice v)"

text \<open>
  The handler of \<^verbatim>\<open>GET /api/products\<close> (lines 29 to 77 of \<^verbatim>\<open>src/server.js\<close>; the
  older copy of the file kept beside it has the same handler). The mutable
  \<^verbatim>\<open>query\<close>, \<^verbatim>\<open>conditions\<close> and \<^verbatim>\<open>params\<close> are threaded through the three
  conditionals in the order of the source.
\<close>

definition list_products :: "'s store \<Rightarrow> query \<Rightarrow> 's conn \<Rightarrow> response \<times> 's conn" where
  "list_products Q rq c =
     (let page = destructure (Fin 1) (q_page rq);
          limit = destructure (Fin 10) (q_limit rq);
          category_id = q_category_id rq;
          min_price = q_min_price rq;
          max_price = q_max_price rq;
          sort_by = with_default ''id'' (q_sort_by rq);
          order = with_default ''ASC'' (q_order rq);
          offset = js_mul (js_sub (p_ToNumber page) (Fin 1)) (p_ToNumber limit);
          query0 = ''SELECT * FROM products'';
          params0 = []
      in if invalid_price min_price then (json 400 (error_body ''Invalid min_price''), c)
         else if invalid_price max_price then (json 400 (error_body ''Invalid max_price''), c)
         else
           let conditions0 = [];
               (conditions1, params1) =
                 (if present category_id
                  then (conditions0 @ [''category_id = $1''], params0 @ [raw category_id])
                  else (conditions0, params0));
               (conditions2, params2) =
                 (if present min_price
                  then (conditions1 @ [''price >= $'' @ show_nat (length params1 + 1)],
                        params1 @ [raw min_price])
                  else (conditions1, params1));
               (conditions3, params3) =
                 (if present max_price
                  then (conditions2 @ [''price <= $'' @ show_nat (length params2 + 1)],
                        params2 @ [raw max_price])
                  else (conditions2, params2));
               query1 =
                 (if length conditions3 > 0
                  then query0 @ '' WHERE '' @ intercalate '' AND '' conditions3
                  else query0);
               query2 =
                 query1 @ '' ORDER BY '' @ q_ToString sort_by @ '' '' @ q_ToString order
                   @ '' LIMIT $'' @ show_nat (length params3 + 1)
                   @ '' OFFSET $'' @ show_nat (length params3 + 2);
               params4 = params3 @ [p_js limit, JNum offset]
           in case pool_query Q query2 params4 c of
                (Inr rows, c') \<Rightarrow> (json 200 (rows_json rows), c')
              | (Inl err, c') \<Rightarrow> (internal_error err, c'))"

section \<open>Searching products\<close>

text \<open>The handler of \<^verbatim>\<open>GET /api/products/search\<close> (lines 94 to 110).\<close>

definition SQL_SEARCH :: string where
  "SQL_SEARCH = ''SELECT * FROM products WHERE name ILIKE $1 OR description ILIKE $1''"


section \<open>Updating a product\<close>

text \<open>
  The handler of \<^verbatim>\<open>PUT /api/products/:id\<close> (lines 145 to 157). It reads six
  properties of the body; no validation chain is attached to this route.
\<close>

definition SQL_UPDATE_PRODUCT :: string where
  "SQL_UPDATE_PRODUCT =
     ''UPDATE products SET name = $1, description = $2, price = $3, category_id = $4, image_url = $5, address = $6 WHERE id = $7 RETURNING *''"

definition update_product :: "'s store \<Rightarrow> string \<Rightarrow> props \<Rightarrow> 's conn \<Rightarrow> response \<times> 's conn" where
  "update_product Q ident body c =
     (let name = field body ''name'';
          description = field body ''description'';
          price = field body ''price'';
          category_id = field body ''category_id'';
          image_url = field body ''image_url'';
          address = field body ''address''
      in case pool_query Q SQL_UPDATE_PRODUCT
                [name, description, price, category_id, image_url, address, JStr ident] c of
           (Inr rows, c') \<Rightarrow> (json 200 (first_row_json rows), c')
         | (Inl err, c') \<Rightarrow> (internal_error err, c'))"

section \<open>Submitting a product request\<close>

text \<open>
  The validation chains of \<^verbatim>\<open>POST /api/product-requests\<close> come from the
  express-validator library, which is not part of the repository. Its validators are
  parameters of the model: each decides whether the value of a field passes.
\<close>

record validators =
  notEmpty :: "jsval \<Rightarrow> bool"
  isFloat_gt0 :: "jsval \<Rightarrow> bool"
  isInt_gt0 :: "jsval \<Rightarrow> bool"
  isURL :: "jsval \<Rightarrow> bool"
  isString :: "jsval \<Rightarrow> bool"

text \<open>
  A chain: the field, whether it is \<^verbatim>\<open>optional()\<close> (an undefined value is then not
  checked), the validator, and the message of \<^verbatim>\<open>withMessage\<close>.
\<close>

record chain =
  ch_field :: string
  ch_optional :: bool
  ch_check :: "jsval \<Rightarrow> bool"
  ch_message :: string

definition body_chain :: "string \<Rightarrow> (jsval \<Rightarrow> bool) \<Rightarrow> string \<Rightarrow> chain" where
  "body_chain f chk msg = \<lparr>ch_field = f, ch_optional = False, ch_check = chk, ch_message = msg\<rparr>"

definition optional_chain :: "string \<Rightarrow> (jsval \<Rightarrow> bool) \<Rightarrow> string \<Rightarrow> chain" where
  "optional_chain f chk msg = \<lparr>ch_field = f, ch_optional = True, ch_check = chk, ch_message = msg\<rparr>"

definition request_chains :: "validators \<Rightarrow> chain list" where
  "request_chains V =
     [body_chain ''name'' (notEmpty V) ''Name is required'',
      body_chain ''description'' (notEmpty V) ''Description is required'',
      body_chain ''price'' (isFloat_gt0 V) ''Price must be a positive number'',
      body_chain ''category_id'' (isInt_gt0 V) ''Category ID must be a positive integer'',
      body_chain ''image_url'' (isURL V) ''Image URL must be a valid URL'',
      body_chain ''affiliate_url'' (isURL V) ''Affiliate URL must be a valid URL'',
      body_chain ''user_id'' (isInt_gt0 V) ''User ID must be a positive integer'',
      optional_chain ''address'' (isString V) ''Address must be a string'']"

text \<open>
  The error that a failing chain reports: its message and its field (the further
  properties that the library puts into the record are left out).
\<close>

definition field_error :: "string \<Rightarrow> string \<Rightarrow> jsval" where
  "field_error f message = JObj [(''msg'', JStr message), (''path'', JStr f)]"

definition chain_errors :: "props \<Rightarrow> chain \<Rightarrow> jsval list" where
  "chain_errors body ch =
     (let v = field body (ch_field ch)
      in if ch_optional ch \<and> v = JUndefined then []
         else if ch_check ch v then []
         else [field_error (ch_field ch) (ch_message ch)])"

definition validationResult :: "chain list \<Rightarrow> props \<Rightarrow> jsval list" where
  "validationResult chs body = concat (map (chain_errors body) chs)"

definition SQL_INSERT_REQUEST :: string where
  "SQL_INSERT_REQUEST =
     ''INSERT INTO product_requests (user_id, name, description, price, category_id, image_url, affiliate_url, address) VALUES ($1, $2, $3, $4, $5, $6, $7, $8) RETURNING *''"

text \<open>The handler of \<^verbatim>\<open>POST /api/product-requests\<close> (lines 181 to 211).\<close>

definition submit_request ::
  "validators \<Rightarrow> 's store \<Rightarrow> props \<Rightarrow> 's conn \<Rightarrow> response \<times> 's conn" where
  "submit_request V Q body c =
     (let errors = validationResult (request_chains V) body
      in if errors \<noteq> [] then (json 400 (JObj [(''errors'', JArr errors)]), c)
         else
           let name = field body ''name'';
               description = field body ''description'';
               price = field body ''price'';
               category_id = field body ''category_id'';
               image_url = field body ''image_url'';
               affiliate_url = field body ''affiliate_url'';
               user_id = field body ''user_id'';
               address = field body ''address''
           in case pool_query Q SQL_INSERT_REQUEST
                     [user_id, name, description, price, category_id, image_url,
                      affiliate_url, address] c of
                (Inr rows, c') \<Rightarrow> (json 200 (first_row_json rows), c')
              | (Inl err, c') \<Rightarrow>
                  (json 500 (JObj [(''error'', JStr ''Server error''), (''details'', JStr err)]),
                   c'))"

section \<open>Deciding a product request\<close>

definition SQL_SELECT_REQUEST :: string where
  "SQL_SELECT_REQUEST = ''SELECT * FROM product_requests WHERE id = $1''"

definition SQL_INSERT_PRODUCT :: string where
  "SQL_INSERT_PRODUCT =
     ''INSERT INTO products (name, description, price, category_id, image_url, affiliate_url, address) VALUES ($1, $2, $3, $4, $5, $6, $7)''"

definition SQL_UPDATE_REQUEST :: string where
  "SQL_UPDATE_REQUEST = ''UPDATE product_requests SET status = $1 WHERE id = $2''"

definition INVALID_STATUS :: string where
  \<open>INVALID_STATUS = ''Invalid status. Status must be "approved" or "rejected".''\<close>

text \<open>
  The handler of \<^verbatim>\<open>PUT /api/product-requests/:id\<close> (lines 214 to 249). The status is
  compared with \<^verbatim>\<open>!==\<close>, so only the two strings pass. A rejected promise of any of
  the three statements leaves the handler through \<^verbatim>\<open>next(err)\<close>.
\<close>

definition decide_request ::
  "'s store \<Rightarrow> string \<Rightarrow> props \<Rightarrow> 's conn \<Rightarrow> response \<times> 's conn" where
  "decide_request Q ident body c =
     (let status = field body ''status''
      in if status \<noteq> JStr ''approved'' \<and> status \<noteq> JStr ''rejected''
         then (json 400 (error_body INVALID_STATUS), c)
         else
           case pool_query Q SQL_SELECT_REQUEST [JStr ident] c of
             (Inl err, c1) \<Rightarrow> (internal_error err, c1)
           | (Inr rows, c1) \<Rightarrow>
               if length rows = 0 then (json 404 (error_body ''Product request not found''), c1)
               else
                 let inserted =
                       (if status = JStr ''approved'' then
                          (let productRequest = hd rows
                           in pool_query Q SQL_INSERT_PRODUCT
                                [field productRequest ''name'',
                                 field productRequest ''description'',
                                 field productRequest ''price'',
                                 field productRequest ''category_id'',
                                 field productRequest ''image_url'',
                                 field productRequest ''affiliate_url'',
                                 field productRequest ''address''] c1)
                        else (Inr [], c1))
                 in (case inserted of
                       (Inl err, c2) \<Rightarrow> (internal_error err, c2)
                     | (Inr _, c2) \<Rightarrow>
                         (case pool_query Q SQL_UPDATE_REQUEST [status, JStr ident] c2 of
                            (Inl err, c3) \<Rightarrow> (internal_error err, c3)
                          | (Inr _, c3) \<Rightarrow>
                              (json 200
                                 (JObj [(''message'',
                                    JStr (''Product request '' @
                                      (if status = JStr ''approved'' then ''approved''
                                       else ''rejected'')))]),
                               c3))))"

section \<open>A reference store\<close>

text \<open>
  The database server is not part of the repository. The reference store below gives
  the statements of the handlers a meaning over two tables: a table is the list of its
  rows, and a new row takes the next identifier of its table. A cell keeps the value
  that was bound to it; the conversions between the values of the language and the
  column types are not modelled, except that an undefined parameter is sent as null
  and that a comparison reads its operands by the type of the column (a parameter that
  does not read makes the statement fail, a cell that does not read compares like
  null). Constraints of the tables are not modelled, so the reference store refuses no
  insert and no update.
\<close>

text \<open>
  Modelled from the spec: the tables \<^verbatim>\<open>products\<close> and \<^verbatim>\<open>product_requests\<close>, whose
  definitions are not in the repository. The columns are those that the statements of
  the handlers name; by the data model of the specification the identifiers and the
  category reference are integers, the price is a decimal number, and the other
  columns are texts.
\<close>

record product =
  p_id :: int
  p_name :: jsval
  p_description :: jsval
  p_price :: jsval
  p_category_id :: jsval
  p_image_url :: jsval
  p_affiliate_url :: jsval
  p_address :: jsval

record request =
  r_id :: int
  r_user_id :: jsval
  r_name :: jsval
  r_description :: jsval
  r_price :: jsval
  r_category_id :: jsval
  r_image_url :: jsval
  r_affiliate_url :: jsval
  r_address :: jsval
  r_status :: jsval

record database =
  products :: "product list"
  product_requests :: "request list"
  next_product_id :: int
  next_request_id :: int

definition prepareValue :: "jsval \<Rightarrow> jsval" where
  "prepareValue v = (if v = JUndefined then JNull else v)"

definition product_row :: "product \<Rightarrow> props" where
  "product_row p =
     [(''id'', JNum (Fin (of_int (p_id p)))),
      (''name'', p_name p),
      (''description'', p_description p),
      (''price'', p_price p),
      (''category_id'', p_category_id p),
      (''image_url'', p_image_url p),
      (''affiliate_url'', p_affiliate_url p),
      (''address'', p_address p)]"

definition request_row :: "request \<Rightarrow> props" where
  "request_row r =
     [(''id'', JNum (Fin (of_int (r_id r)))),
      (''user_id'', r_user_id r),
      (''name'', r_name r),
      (''description'', r_description r),
      (''price'', r_price r),
      (''category_id'', r_category_id r),
      (''image_url'', r_image_url r),
      (''affiliate_url'', r_affiliate_url r),
      (''address'', r_address r),
      (''status'', r_status r)]"

text \<open>
  Modelled from the spec: the status that a new row of \<^verbatim>\<open>product_requests\<close> takes.
  The insert statement of the handler names no status, and the table definition with
  the default of the column is not in the repository; the data model of the
  specification creates a request in the status pending.
\<close>

definition status_default :: jsval where
  "status_default = JStr ''pending''"

subsection \<open>Reading parameters and cells\<close>

definition pg_space :: "char \<Rightarrow> bool" where
  "pg_space c = (of_char c \<in> {9, 10, 11, 12, 13, 32 :: nat})"

definition pg_trim :: "string \<Rightarrow> string" where
  "pg_trim s = rev (dropWhile pg_space (rev (dropWhile pg_space s)))"

definition pg_digits :: "string \<Rightarrow> int option" where
  "pg_digits s = (if s \<noteq> [] \<and> list_all is_digit s then Some (int (digits_val s)) else None)"

text \<open>An integer, a decimal number, a text (the range of the integer types is not modelled).\<close>

fun pg_int :: "jsval \<Rightarrow> int option" where
  "pg_int (JStr s) =
     (case pg_trim s of
        [] \<Rightarrow> None
      | c # r \<Rightarrow>
          if c = CHR ''-'' then map_option uminus (pg_digits r)
          else if c = CHR ''+'' then pg_digits r
          else pg_digits (c # r))"
| "pg_int (JNum (Fin x)) = (if x = of_int \<lfloor>x\<rfloor> then Some \<lfloor>x\<rfloor> else None)"
| "pg_int _ = None"

fun pg_numeric :: "jsval \<Rightarrow> rat option" where
  "pg_numeric (JStr s) =
     (case scan_decimal (pg_trim s) of Some (Fin x, []) \<Rightarrow> Some x | _ \<Rightarrow> None)"
| "pg_numeric (JNum (Fin x)) = Some x"
| "pg_numeric _ = None"

fun pg_text :: "jsval \<Rightarrow> string option" where
  "pg_text (JStr s) = Some s"
| "pg_text _ = None"

definition is_null :: "jsval \<Rightarrow> bool" where
  "is_null v = (v = JNull \<or> v = JUndefined)"

subsection \<open>Pattern matching\<close>

text \<open>
  \<^verbatim>\<open>LIKE\<close>: in the pattern a percent sign stands for any sequence of characters, an
  underscore for any one character, and a backslash takes the next character
  literally. (A pattern that ends inside an escape matches nothing here; the engine
  raises an error when the match reaches that point.) \<^verbatim>\<open>ILIKE\<close> compares without
  regard to the case of the letters a to z.
\<close>

fun like_match :: "string \<Rightarrow> string \<Rightarrow> bool" where
  "like_match [] s = (s = [])"
| "like_match (p # ps) s =
     (if p = CHR ''%'' then
        (like_match ps s \<or> (case s of [] \<Rightarrow> False | _ # s' \<Rightarrow> like_match (p # ps) s'))
      else if p = CHR ''_'' then
        (case s of [] \<Rightarrow> False | _ # s' \<Rightarrow> like_match ps s')
      else if p = CHR 0x5C then
        (case ps of
           [] \<Rightarrow> False
         | q # ps' \<Rightarrow> (case s of [] \<Rightarrow> False | c # s' \<Rightarrow> c = q \<and> like_match ps' s'))
      else
        (case s of [] \<Rightarrow> False | c # s' \<Rightarrow> c = p \<and> like_match ps s'))"

definition lower :: "char \<Rightarrow> char" where
  "lower c =
     (case map_of (zip ''ABCDEFGHIJKLMNOPQRSTUVWXYZ'' ''abcdefghijklmnopqrstuvwxyz'') c of
        None \<Rightarrow> c
      | Some l \<Rightarrow> l)"

definition ilike :: "jsval \<Rightarrow> string \<Rightarrow> bool" where
  "ilike cell pat =
     (case pg_text cell of
        None \<Rightarrow> False
      | Some s \<Rightarrow> like_match (map lower pat) (map lower s))"

subsection \<open>The statements with a fixed text\<close>

definition wrong_arity :: string where
  "wrong_arity = ''bind message supplies the wrong number of parameters''"

definition bad_integer :: string where
  "bad_integer = ''invalid input syntax for type integer''"

definition bad_text :: string where
  "bad_text = ''parameter of a type that is not modelled''"

definition select_request :: "jsval list \<Rightarrow> database \<Rightarrow> (string + props list) \<times> database" where
  "select_request ps d =
     (case ps of
        [i] \<Rightarrow>
          (if is_null i then (Inr [], d)
           else case pg_int i of
                  None \<Rightarrow> (Inl bad_integer, d)
                | Some n \<Rightarrow>
                    (Inr (map request_row (filter (\<lambda>r. r_id r = n) (product_requests d))), d))
      | _ \<Rightarrow> (Inl wrong_arity, d))"

definition insert_product :: "jsval list \<Rightarrow> database \<Rightarrow> (string + props list) \<times> database" where
  "insert_product ps d =
     (case ps of
        [name, description, price, category_id, image_url, affiliate_url, address] \<Rightarrow>
          (Inr [],
           d\<lparr>products := products d @
                [\<lparr>p_id = next_product_id d,
                  p_name = prepareValue name,
                  p_description = prepareValue description,
                  p_price = prepareValue price,
                  p_category_id = prepareValue category_id,
                  p_image_url = prepareValue image_url,
                  p_affiliate_url = prepareValue affiliate_url,
                  p_address = prepareValue address\<rparr>],
              next_product_id := next_product_id d + 1\<rparr>)
      | _ \<Rightarrow> (Inl wrong_arity, d))"

definition new_request :: "int \<Rightarrow> jsval list \<Rightarrow> request option" where
  "new_request n ps =
     (case ps of
        [user_id, name, description, price, category_id, image_url, affiliate_url, address] \<Rightarrow>
          Some \<lparr>r_id = n,
                r_user_id = prepareValue user_id,
                r_name = prepareValue name,
                r_description = prepareValue description,
                r_price = prepareValue price,
                r_category_id = prepareValue category_id,
                r_image_url = prepareValue image_url,
                r_affiliate_url = prepareValue affiliate_url,
                r_address = prepareValue address,
                r_status = status_default\<rparr>
      | _ \<Rightarrow> None)"

definition insert_request :: "jsval list \<Rightarrow> database \<Rightarrow> (string + props list) \<times> database" where
  "insert_request ps d =
     (case new_request (next_request_id d) ps of
        None \<Rightarrow> (Inl wrong_arity, d)
      | Some r \<Rightarrow>
          (Inr [request_row r],
           d\<lparr>product_requests := product_requests d @ [r],
              next_request_id := next_request_id d + 1\<rparr>))"

definition set_product ::
  "jsval \<Rightarrow> jsval \<Rightarrow> jsval \<Rightarrow> jsval \<Rightarrow> jsval \<Rightarrow> jsval \<Rightarrow> product \<Rightarrow> product" where
  "set_product name description price category_id image_url address p =
     p\<lparr>p_name := prepareValue name,
       p_description := prepareValue description,
       p_price := prepareValue price,
       p_category_id := prepareValue category_id,
       p_image_url := prepareValue image_url,
       p_address := prepareValue address\<rparr>"

definition update_product_row ::
  "jsval list \<Rightarrow> database \<Rightarrow> (string + props list) \<times> database" where
  "update_product_row ps d =
     (case ps of
        [name, description, price, category_id, image_url, address, i] \<Rightarrow>
          (if is_null i then (Inr [], d)
           else case pg_int i of
                  None \<Rightarrow> (Inl bad_integer, d)
                | Some n \<Rightarrow>
                    (let upd = set_product name description price category_id image_url address
                     in (Inr (map (product_row \<circ> upd) (filter (\<lambda>p. p_id p = n) (products d))),
                         d\<lparr>products :=
                              map (\<lambda>p. if p_id p = n then upd p else p) (products d)\<rparr>)))
      | _ \<Rightarrow> (Inl wrong_arity, d))"

definition update_request_status ::
  "jsval list \<Rightarrow> database \<Rightarrow> (string + props list) \<times> database" where
  "update_request_status ps d =
     (case ps of
        [status, i] \<Rightarrow>
          (if is_null i then (Inr [], d)
           else case pg_int i of
                  None \<Rightarrow> (Inl bad_integer, d)
                | Some n \<Rightarrow>
                    (Inr [],
                     d\<lparr>product_requests :=
                          map (\<lambda>r. if r_id r = n then r\<lparr>r_status := prepareValue status\<rparr> else r)
                            (product_requests d)\<rparr>))
      | _ \<Rightarrow> (Inl wrong_arity, d))"

definition search_rows :: "jsval list \<Rightarrow> database \<Rightarrow> (string + props list) \<times> database" where
  "search_rows ps d =
     (case ps of
        [pat] \<Rightarrow>
          (if is_null pat then (Inr [], d)
           else case pg_text pat of
                  None \<Rightarrow> (Inl bad_text, d)
                | Some t \<Rightarrow>
                    (Inr (map product_row
                           (filter (\<lambda>p. ilike (p_name p) t \<or> ilike (p_description p) t)
                              (products d))),
                     d))
      | _ \<Rightarrow> (Inl wrong_arity, d))"

subsection \<open>The listing statement\<close>

text \<open>
  The text of the listing statement is built at run time, so the store reads it: the
  text is cut at the single spaces, and the words have to be those of
  \<^verbatim>\<open>SELECT * FROM products [WHERE c AND ... AND c] ORDER BY column direction LIMIT $n OFFSET $m\<close>
  where a condition \<open>c\<close> compares \<^verbatim>\<open>category_id\<close> or \<^verbatim>\<open>price\<close> with a placeholder.
  Any other text is refused as a syntax error: the store understands no more of the
  language than this, so whatever else the engine would accept is outside the model.
\<close>

fun split_sp :: "string \<Rightarrow> string \<Rightarrow> string list" where
  "split_sp acc [] = [acc]"
| "split_sp acc (c # cs) =
     (if c = CHR '' '' then acc # split_sp [] cs else split_sp (acc @ [c]) cs)"

definition tokens :: "string \<Rightarrow> string list" where
  "tokens s = split_sp [] s"

datatype column = ColCategoryId | ColPrice

datatype cmp = Eq | Ge | Le

type_synonym cond = "column \<times> cmp \<times> nat"

definition placeholder :: "string \<Rightarrow> nat option" where
  "placeholder t =
     (case t of
        [] \<Rightarrow> None
      | c # ds \<Rightarrow>
          if c = CHR ''$'' \<and> ds \<noteq> [] \<and> list_all is_digit ds \<and> 0 < digits_val ds
          then Some (digits_val ds) else None)"

definition cond_column :: "string \<Rightarrow> column option" where
  "cond_column t =
     (if map lower t = ''category_id'' then Some ColCategoryId
      else if map lower t = ''price'' then Some ColPrice
      else None)"

definition cond_cmp :: "string \<Rightarrow> cmp option" where
  "cond_cmp t =
     (if t = ''='' then Some Eq
      else if t = ''>='' then Some Ge
      else if t = ''<='' then Some Le
      else None)"

definition mk_cond :: "string \<Rightarrow> string \<Rightarrow> string \<Rightarrow> cond option" where
  "mk_cond c opr ph =
     (case (cond_column c, cond_cmp opr, placeholder ph) of
        (Some a, Some b, Some k) \<Rightarrow> Some (a, b, k)
      | _ \<Rightarrow> None)"

fun parse_conds :: "string list \<Rightarrow> (cond list \<times> string list) option" where
  "parse_conds (c # opr # ph # rest) =
     (case mk_cond c opr ph of
        None \<Rightarrow> None
      | Some x \<Rightarrow>
          (case rest of
             [] \<Rightarrow> Some ([x], rest)
           | a # rest' \<Rightarrow>
               if a = ''AND'' then
                 (case parse_conds rest' of
                    None \<Rightarrow> None
                  | Some (xs, r) \<Rightarrow> Some (x # xs, r))
               else Some ([x], rest)))"
| "parse_conds _ = None"

text \<open>
  The key by which a column orders the rows: nulls after the values, numbers by
  value, texts by their code units.
\<close>

type_synonym sort_key = "bool \<times> rat \<times> string"

definition num_key :: "jsval \<Rightarrow> sort_key" where
  "num_key v = (case pg_numeric v of None \<Rightarrow> (True, 0, []) | Some x \<Rightarrow> (False, x, []))"

definition text_key :: "jsval \<Rightarrow> sort_key" where
  "text_key v = (case pg_text v of None \<Rightarrow> (True, 0, []) | Some t \<Rightarrow> (False, 0, t))"

definition sort_column :: "string \<Rightarrow> (product \<Rightarrow> sort_key) option" where
  "sort_column t =
     (let u = map lower t
      in if u = ''id'' then Some (\<lambda>p. (False, of_int (p_id p), []))
         else if u = ''name'' then Some (text_key \<circ> p_name)
         else if u = ''description'' then Some (text_key \<circ> p_description)
         else if u = ''price'' then Some (num_key \<circ> p_price)
         else if u = ''category_id'' then Some (num_key \<circ> p_category_id)
         else if u = ''image_url'' then Some (text_key \<circ> p_image_url)
         else if u = ''affiliate_url'' then Some (text_key \<circ> p_affiliate_url)
         else if u = ''address'' then Some (text_key \<circ> p_address)
         else None)"

definition direction :: "string \<Rightarrow> bool option" where
  "direction t =
     (let u = map lower t
      in if u = ''asc'' then Some False else if u = ''desc'' then Some True else None)"

record listing =
  l_conds :: "cond list"
  l_key :: "product \<Rightarrow> sort_key"
  l_desc :: bool
  l_limit :: nat
  l_offset :: nat

definition parse_tail :: "cond list \<Rightarrow> string list \<Rightarrow> listing option" where
  "parse_tail cs ws =
     (case ws of
        [o1, o2, col, dir, l, pl, off, po] \<Rightarrow>
          if o1 = ''ORDER'' \<and> o2 = ''BY'' \<and> l = ''LIMIT'' \<and> off = ''OFFSET'' then
            (case (sort_column col, direction dir, placeholder pl, placeholder po) of
               (Some k, Some dsc, Some a, Some b) \<Rightarrow>
                 Some \<lparr>l_conds = cs, l_key = k, l_desc = dsc, l_limit = a, l_offset = b\<rparr>
             | _ \<Rightarrow> None)
          else None
      | _ \<Rightarrow> None)"

definition parse_listing :: "string \<Rightarrow> listing option" where
  "parse_listing text =
     (case tokens text of
        s # st # f # t # rest \<Rightarrow>
          if s = ''SELECT'' \<and> st = ''*'' \<and> f = ''FROM'' \<and> t = ''products'' then
            (case rest of
               [] \<Rightarrow> None
             | w # rest' \<Rightarrow>
                 if w = ''WHERE'' then
                   (case parse_conds rest' of
                      None \<Rightarrow> None
                    | Some (cs, ws) \<Rightarrow> parse_tail cs ws)
                 else parse_tail [] rest)
          else None
      | _ \<Rightarrow> None)"

text \<open>
  The meaning of a parsed listing. Every placeholder from 1 to the number of the
  parameters has to occur, and no other; a condition on a null parameter holds of no
  row; the limit and the offset are integers that are not negative (null: no bound).
\<close>

definition param :: "nat \<Rightarrow> jsval list \<Rightarrow> jsval option" where
  "param k ps = (if 0 < k \<and> k \<le> length ps then Some (ps ! (k - 1)) else None)"

fun compare :: "cmp \<Rightarrow> rat \<Rightarrow> rat \<Rightarrow> bool" where
  "compare Eq x m = (x = m)"
| "compare Ge x m = (m \<le> x)"
| "compare Le x m = (x \<le> m)"

fun cond_pred :: "jsval list \<Rightarrow> cond \<Rightarrow> (product \<Rightarrow> bool) option" where
  "cond_pred ps (col, opr, k) =
     (case param k ps of
        None \<Rightarrow> None
      | Some v \<Rightarrow>
          if is_null v then Some (\<lambda>p. False)
          else
            (case col of
               ColPrice \<Rightarrow>
                 (case pg_numeric v of
                    None \<Rightarrow> None
                  | Some m \<Rightarrow>
                      Some (\<lambda>p. case pg_numeric (p_price p) of
                                  None \<Rightarrow> False
                                | Some x \<Rightarrow> compare opr x m))
             | ColCategoryId \<Rightarrow>
                 (case pg_int v of
                    None \<Rightarrow> None
                  | Some m \<Rightarrow>
                      Some (\<lambda>p. case pg_int (p_category_id p) of
                                  None \<Rightarrow> False
                                | Some x \<Rightarrow> compare opr (of_int x) (of_int m)))))"

definition pg_count :: "jsval \<Rightarrow> nat option option" where
  "pg_count v =
     (if is_null v then Some None
      else case pg_int v of
             None \<Rightarrow> None
           | Some n \<Rightarrow> if 0 \<le> n then Some (Some (nat n)) else None)"

definition window :: "nat option \<Rightarrow> nat option \<Rightarrow> 'a list \<Rightarrow> 'a list" where
  "window count skip xs =
     (let ys = drop (case skip of None \<Rightarrow> 0 | Some m \<Rightarrow> m) xs
      in case count of None \<Rightarrow> ys | Some n \<Rightarrow> take n ys)"

definition placeholders :: "listing \<Rightarrow> nat list" where
  "placeholders L = map (\<lambda>(col, opr, k). k) (l_conds L) @ [l_limit L, l_offset L]"

definition exec_listing ::
  "listing \<Rightarrow> jsval list \<Rightarrow> database \<Rightarrow> (string + props list) \<times> database" where
  "exec_listing L ps d =
     (if \<not> (list_all (\<lambda>k. 0 < k \<and> k \<le> length ps) (placeholders L) \<and>
             list_all (\<lambda>k. k \<in> set (placeholders L)) [1 ..< length ps + 1])
      then (Inl wrong_arity, d)
      else
        case those (map (cond_pred ps) (l_conds L)) of
          None \<Rightarrow> (Inl ''invalid input syntax'', d)
        | Some preds \<Rightarrow>
            (case (Option.bind (param (l_limit L) ps) pg_count,
                   Option.bind (param (l_offset L) ps) pg_count) of
               (Some count, Some skip) \<Rightarrow>
                 (let selected = filter (\<lambda>p. list_all (\<lambda>f. f p) preds) (products d);
                      ascending = sort_key (l_key L) selected;
                      ordered = (if l_desc L then rev ascending else ascending)
                  in (Inr (map product_row (window count skip ordered)), d))
             | _ \<Rightarrow> (Inl ''invalid input syntax'', d)))"

subsection \<open>The store\<close>

definition pg :: "database store" where
  "pg text ps d =
     (if text = SQL_SELECT_REQUEST then select_request ps d
      else if text = SQL_INSERT_PRODUCT then insert_product ps d
      else if text = SQL_INSERT_REQUEST then insert_request ps d
      else if text = SQL_UPDATE_PRODUCT then update_product_row ps d
      else if text = SQL_UPDATE_REQUEST then update_request_status ps d
      else if text = SQL_SEARCH then search_rows ps d
      else case parse_listing text of
             None \<Rightarrow> (Inl ''syntax error'', d)
           | Some L \<Rightarrow> exec_listing L ps d)"

section \<open>The statements of the specification\<close>



definition nonneg_decimal :: "string \<Rightarrow> bool" where
  "nonneg_decimal s =
     (let ip = takeWhile is_digit s; r = dropWhile is_digit s
      in ip \<noteq> [] \<and> (r = [] \<or> (hd r = CHR ''.'' \<and> tl r \<noteq> [] \<and> list_all is_digit (tl r))))"

definition where_given :: "(string \<Rightarrow> bool) \<Rightarrow> qval option \<Rightarrow> bool" where
  "where_given P p = (case p of None \<Rightarrow> True | Some (QStr s) \<Rightarrow> P s | Some (QArr xs) \<Rightarrow> False)"




text \<open>The clauses, the i-th of them with the i-th placeholder.\<close>

definition spec_clauses :: "(string \<times> jsval) list \<Rightarrow> string list" where
  "spec_clauses fs = map (\<lambda>(i, clause, v). clause @ ''$'' @ show_nat (Suc i)) (enumerate 0 fs)"



text \<open>
  The select with the conjunction of the clauses (none: no condition), and the limit
  and offset with the two placeholders that follow those of \<open>n\<close> clauses.
\<close>

definition select_where :: "(string \<times> jsval) list \<Rightarrow> string" where
  "select_where fs =
     ''SELECT * FROM products''
     @ (if fs = [] then [] else '' WHERE '' @ intercalate '' AND '' (spec_clauses fs))"

definition limit_offset :: "nat \<Rightarrow> string" where
  "limit_offset n = '' LIMIT $'' @ show_nat (n + 1) @ '' OFFSET $'' @ show_nat (n + 2)"



text \<open>
  The same list of filters as the handler takes them: a filter counts when its
  parameter is truthy, so an empty string counts as absent.
\<close>

definition sent_filter :: "string \<Rightarrow> qval option \<Rightarrow> (string \<times> jsval) list" where
  "sent_filter clause p = (if present p then [(clause, raw p)] else [])"

definition sent_filters :: "query \<Rightarrow> (string \<times> jsval) list" where
  "sent_filters rq =
     sent_filter ''category_id = '' (q_category_id rq) @
     sent_filter ''price >= '' (q_min_price rq) @
     sent_filter ''price <= '' (q_max_price rq)"

definition js_offset :: "query \<Rightarrow> jsnum" where
  "js_offset rq =
     js_mul (js_sub (p_ToNumber (destructure (Fin 1) (q_page rq))) (Fin 1))
       (p_ToNumber (destructure (Fin 10) (q_limit rq)))"

definition sent_text :: "query \<Rightarrow> string" where
  "sent_text rq =
     select_where (sent_filters rq)
     @ '' ORDER BY '' @ q_ToString (with_default ''id'' (q_sort_by rq))
     @ '' '' @ q_ToString (with_default ''ASC'' (q_order rq))
     @ limit_offset (length (sent_filters rq))"

definition sent_params :: "query \<Rightarrow> jsval list" where
  "sent_params rq =
     map snd (sent_filters rq) @ [p_js (destructure (Fin 10) (q_limit rq)), JNum (js_offset rq)]"

text \<open>
  The price of a product is within the bounds of a request: each bound that is given
  reads as a number, the price reads as a number, and the two compare as the bound
  says. A request without bounds asks nothing of the price.
\<close>

definition bound_holds :: "(rat \<Rightarrow> rat \<Rightarrow> bool) \<Rightarrow> qval option \<Rightarrow> product \<Rightarrow> bool" where
  "bound_holds rel b p =
     (case b of
        None \<Rightarrow> True
      | Some v \<Rightarrow>
          (case (pg_numeric (q_js v), pg_numeric (p_price p)) of
             (Some m, Some x) \<Rightarrow> rel m x
           | _ \<Rightarrow> False))"

definition within_bounds :: "query \<Rightarrow> product \<Rightarrow> bool" where
  "within_bounds rq p =
     (bound_holds (\<lambda>m x. m \<le> x) (q_min_price rq) p \<and>
      bound_holds (\<lambda>m x. x \<le> m) (q_max_price rq) p)"



text \<open>The fields of a submitted request are all valid, as its validation chains judge.\<close>

definition all_fields_valid :: "validators \<Rightarrow> props \<Rightarrow> bool" where
  "all_fields_valid V body =
     (notEmpty V (field body ''name'') \<and>
      notEmpty V (field body ''description'') \<and>
      isFloat_gt0 V (field body ''price'') \<and>
      isInt_gt0 V (field body ''category_id'') \<and>
      isURL V (field body ''image_url'') \<and>
      isURL V (field body ''affiliate_url'') \<and>
      isInt_gt0 V (field body ''user_id'') \<and>
      (field body ''address'' = JUndefined \<or> isString V (field body ''address'')))"

section \<open>Sample data\<close>

text \<open>A small catalogue, one pending request and a query without parameters, for the examples.\<close>

definition apple :: product where
  "apple =
     \<lparr>p_id = 1, p_name = JStr ''Apple'', p_description = JStr ''red and sweet'',
      p_price = JStr ''2.50'', p_category_id = JNum (Fin 3),
      p_image_url = JStr ''http://img.test/apple.png'',
      p_affiliate_url = JStr ''http://shop.test/apple'', p_address = JNull\<rparr>"

definition pear :: product where
  "pear =
     \<lparr>p_id = 2, p_name = JStr ''Pear'', p_description = JStr ''green'',
      p_price = JStr ''7'', p_category_id = JNum (Fin 3),
      p_image_url = JStr ''http://img.test/pear.png'',
      p_affiliate_url = JStr ''http://shop.test/pear'', p_address = JStr ''Orchard Rd''\<rparr>"

definition plum_wish :: request where
  "plum_wish =
     \<lparr>r_id = 1, r_user_id = JNum (Fin 8), r_name = JStr ''Plum'',
      r_description = JStr ''blue'', r_price = JNum (Fin 4), r_category_id = JNum (Fin 3),
      r_image_url = JStr ''http://img.test/plum.png'',
      r_affiliate_url = JStr ''http://shop.test/plum'', r_address = JNull,
      r_status = JStr ''pending''\<rparr>"

definition shop :: database where
  "shop =
     \<lparr>products = [pear, apple], product_requests = [plum_wish],
      next_product_id = 3, next_request_id = 2\<rparr>"

definition fresh :: "database conn" where
  "fresh = \<lparr>db = shop, log = []\<rparr>"

definition plum_submission :: props where
  "plum_submission =
     [(''name'', JStr ''Plum''), (''description'', JStr ''blue''), (''price'', JNum (Fin 4)),
      (''category_id'', JNum (Fin 3)), (''image_url'', JStr ''http://img.test/plum.png''),
      (''affiliate_url'', JStr ''http://shop.test/plum''), (''user_id'', JNum (Fin 8))]"

definition apple_update :: props where
  "apple_update =
     [(''name'', JStr ''Apple pie''), (''description'', JStr ''baked''),
      (''price'', JStr ''3.00''), (''category_id'', JNum (Fin 4)),
      (''image_url'', JStr ''http://img.test/pie.png''),
      (''affiliate_url'', JStr ''http://shop.test/pie''), (''address'', JStr ''Mill Lane'')]"

definition no_filters :: query where
  "no_filters =
     \<lparr>q_page = None, q_limit = None, q_category_id = None, q_min_price = None,
      q_max_price = None, q_sort_by = None, q_order = None\<rparr>"

text \<open>
  An instance of the validators for the examples (the library's own validators are not
  modelled): a text that is not empty, a number above zero, an integer above zero, a
  text that starts with \<^verbatim>\<open>http://\<close>, a text.
\<close>

definition sample_validators :: validators where
  "sample_validators =
     \<lparr>notEmpty = (\<lambda>v. case v of JStr s \<Rightarrow> s \<noteq> [] | _ \<Rightarrow> False),
      isFloat_gt0 = (\<lambda>v. case pg_numeric v of None \<Rightarrow> False | Some x \<Rightarrow> 0 < x),
      isInt_gt0 = (\<lambda>v. case pg_int v of None \<Rightarrow> False | Some n \<Rightarrow> 0 < n),
      isURL = (\<lambda>v. case v of JStr s \<Rightarrow> prefix ''http://'' s | _ \<Rightarrow> False),
      isString = (\<lambda>v. case v of JStr s \<Rightarrow> True | _ \<Rightarrow> False)\<rparr>"

section \<open>Basic facts\<close>

lemma show_nat_small:
  "show_nat (Suc 0) = ''1''" "show_nat 2 = ''2''" "show_nat 3 = ''3''"
  "show_nat 4 = ''4''" "show_nat 5 = ''5''"
  "show_nat (Suc (Suc 0)) = ''2''" "show_nat (Suc (Suc (Suc 0))) = ''3''"
  "show_nat (Suc (Suc (Suc (Suc 0)))) = ''4''"
  "show_nat (Suc (Suc (Suc (Suc (Suc 0))))) = ''5''"
  by (simp_all add: show_nat.simps digit_char_def)

lemma sql_distinct:
  "SQL_INSERT_PRODUCT \<noteq> SQL_SELECT_REQUEST"
  "SQL_INSERT_REQUEST \<noteq> SQL_SELECT_REQUEST"
  "SQL_INSERT_REQUEST \<noteq> SQL_INSERT_PRODUCT"
  "SQL_UPDATE_PRODUCT \<noteq> SQL_SELECT_REQUEST"
  "SQL_UPDATE_PRODUCT \<noteq> SQL_INSERT_PRODUCT"
  "SQL_UPDATE_PRODUCT \<noteq> SQL_INSERT_REQUEST"
  "SQL_UPDATE_REQUEST \<noteq> SQL_SELECT_REQUEST"
  "SQL_UPDATE_REQUEST \<noteq> SQL_INSERT_PRODUCT"
  "SQL_UPDATE_REQUEST \<noteq> SQL_INSERT_REQUEST"
  "SQL_UPDATE_REQUEST \<noteq> SQL_UPDATE_PRODUCT"
  "SQL_SEARCH \<noteq> SQL_SELECT_REQUEST"
  "SQL_SEARCH \<noteq> SQL_INSERT_PRODUCT"
  "SQL_SEARCH \<noteq> SQL_INSERT_REQUEST"
  "SQL_SEARCH \<noteq> SQL_UPDATE_PRODUCT"
  "SQL_SEARCH \<noteq> SQL_UPDATE_REQUEST"
  by (simp_all add: SQL_SELECT_REQUEST_def SQL_INSERT_PRODUCT_def SQL_INSERT_REQUEST_def
      SQL_UPDATE_PRODUCT_def SQL_UPDATE_REQUEST_def SQL_SEARCH_def)

lemma pg_fixed:
  "pg SQL_SELECT_REQUEST ps d = select_request ps d"
  "pg SQL_INSERT_PRODUCT ps d = insert_product ps d"
  "pg SQL_INSERT_REQUEST ps d = insert_request ps d"
  "pg SQL_UPDATE_PRODUCT ps d = update_product_row ps d"
  "pg SQL_UPDATE_REQUEST ps d = update_request_status ps d"
  "pg SQL_SEARCH ps d = search_rows ps d"
  by (simp_all add: pg_def sql_distinct)

lemma is_null_JStr [simp]: "\<not> is_null (JStr s)"
  by (simp add: is_null_def)

section \<open>Reading numbers: facts\<close>

lemma digit_not_ws: "is_digit c \<Longrightarrow> \<not> is_ws c"
  by (auto simp: is_digit_def is_ws_def)

lemma trim_id: "s \<noteq> [] \<Longrightarrow> \<not> is_ws (hd s) \<Longrightarrow> \<not> is_ws (last s) \<Longrightarrow> trim s = s"
proof -
  assume a: "s \<noteq> []" "\<not> is_ws (hd s)" "\<not> is_ws (last s)"
  then have 1: "dropWhile is_ws s = s" by (cases s) auto
  from a have 2: "dropWhile is_ws (rev s) = rev s"
    by (cases "rev s") (auto simp: last_rev hd_rev)
  show ?thesis by (simp add: trim_def 1 2)
qed

lemma mk_dec_nonneg: "0 \<le> mk_dec m e"
  by (simp add: mk_dec_def)

lemma nonneg_decimal_shape:
  assumes "nonneg_decimal s"
  shows "s \<noteq> []" "is_digit (hd s)" "is_digit (last s)"
proof -
  let ?ip = "takeWhile is_digit s" and ?r = "dropWhile is_digit s"
  from assms have ip: "?ip \<noteq> []"
    and r: "?r = [] \<or> (hd ?r = CHR ''.'' \<and> tl ?r \<noteq> [] \<and> list_all is_digit (tl ?r))"
    by (simp_all add: nonneg_decimal_def Let_def)
  from ip show "s \<noteq> []" by auto
  from ip show "is_digit (hd s)" by (cases s) (auto split: if_splits)
  have s: "s = ?ip @ ?r" by simp
  from r show "is_digit (last s)"
  proof
    assume "?r = []"
    then have "list_all is_digit s" by (simp add: list_all_iff)
    with \<open>s \<noteq> []\<close> show ?thesis by (simp add: list_all_iff)
  next
    assume b: "hd ?r = CHR ''.'' \<and> tl ?r \<noteq> [] \<and> list_all is_digit (tl ?r)"
    then have "?r \<noteq> []" by (metis list.sel(2))
    then have "last s = last ?r" by (metis s last_appendR)
    also from b have "\<dots> = last (tl ?r)" by (metis last_tl list.sel(2))
    finally show ?thesis using b by (simp add: list_all_iff)
  qed
qed

lemma scan_unsigned_decimal:
  assumes "nonneg_decimal s"
  shows "\<exists>x. 0 \<le> x \<and> scan_unsigned s = Some (Fin x, [])"
proof -
  let ?ip = "takeWhile is_digit s" and ?r = "dropWhile is_digit s"
  from assms have ip: "?ip \<noteq> []"
    and r: "?r = [] \<or> (hd ?r = CHR ''.'' \<and> tl ?r \<noteq> [] \<and> list_all is_digit (tl ?r))"
    by (simp_all add: nonneg_decimal_def Let_def)
  from nonneg_decimal_shape[OF assms] have np: "\<not> prefix ''Infinity'' s"
    by (cases s) (auto simp: is_digit_def)
  have e: "scan_exponent [] = None" by (simp add: scan_exponent_def)
  from r show ?thesis
  proof
    assume r0: "?r = []"
    from ip np show ?thesis
      by (simp add: scan_unsigned_def Let_def mk_dec_nonneg r0 e)
  next
    assume b: "hd ?r = CHR ''.'' \<and> tl ?r \<noteq> [] \<and> list_all is_digit (tl ?r)"
    then obtain fp where rr: "?r = CHR ''.'' # fp" "fp \<noteq> []" "list_all is_digit fp"
      by (cases ?r) auto
    then have tw: "takeWhile is_digit fp = fp" "dropWhile is_digit fp = []"
      by (simp_all add: list_all_iff)
    from ip np rr(2) show ?thesis
      by (simp add: scan_unsigned_def Let_def mk_dec_nonneg rr(1) tw e)
  qed
qed

lemma scan_radix_digits:
  assumes "nonneg_decimal s"
  shows "scan_radix s = None"
proof (cases s)
  case Nil
  then show ?thesis by (simp add: scan_radix_def)
next
  case (Cons z t)
  show ?thesis
  proof (cases t)
    case Nil
    with Cons show ?thesis by (simp add: scan_radix_def)
  next
    case (Cons x u)
    have "is_digit x \<or> x = CHR ''.''"
    proof (cases "is_digit x")
      case True
      then show ?thesis by simp
    next
      case False
      from nonneg_decimal_shape(2)[OF assms] \<open>s = z # t\<close> have "is_digit z" by simp
      with False \<open>s = z # t\<close> Cons have "dropWhile is_digit s = x # u" by simp
      with assms show ?thesis by (simp add: nonneg_decimal_def Let_def)
    qed
    then have "x \<noteq> CHR ''x'' \<and> x \<noteq> CHR ''X'' \<and> x \<noteq> CHR ''o'' \<and> x \<noteq> CHR ''O''
       \<and> x \<noteq> CHR ''b'' \<and> x \<noteq> CHR ''B''"
      by (auto simp: is_digit_def)
    with \<open>s = z # t\<close> Cons show ?thesis by (simp add: scan_radix_def)
  qed
qed

lemma decimal_reads:
  assumes "nonneg_decimal s"
  shows "\<exists>x. 0 \<le> x \<and> StringToNumber s = Fin x \<and> parseFloat_str s = Fin x"
proof -
  from scan_unsigned_decimal[OF assms] obtain x where
    x: "0 \<le> x" "scan_unsigned s = Some (Fin x, [])" by blast
  note sh = nonneg_decimal_shape[OF assms]
  from sh have sd: "scan_decimal s = scan_unsigned s"
    by (cases s) (auto simp: scan_decimal_def is_digit_def)
  from sh have t: "trim s = s" by (intro trim_id) (auto dest: digit_not_ws)
  from sh have dw: "dropWhile is_ws s = s" by (cases s) (auto dest: digit_not_ws)
  from sh x sd t have "StringToNumber s = Fin x"
    by (simp add: StringToNumber_def scan_radix_digits[OF assms])
  moreover from x sd dw have "parseFloat_str s = Fin x"
    by (simp add: parseFloat_str_def)
  ultimately show ?thesis using x by blast
qed

lemma validatePrice_decimal: "nonneg_decimal s \<Longrightarrow> validatePrice (QStr s)"
  using decimal_reads[of s]
  by (auto simp: validatePrice_def isNaN_def q_ToNumber_def parseFloat_def)



text \<open>A negative decimal number, other than minus zero, does not pass the validator.\<close>

lemma negative_decimal_rejected:
  assumes "nonneg_decimal s" "StringToNumber s \<noteq> Fin 0"
  shows "\<not> validatePrice (QStr (CHR ''-'' # s))"
proof -
  from scan_unsigned_decimal[OF assms(1)] obtain x where
    x: "0 \<le> x" "scan_unsigned s = Some (Fin x, [])" by blast
  note sh = nonneg_decimal_shape[OF assms(1)]
  from sh have sd: "scan_decimal s = scan_unsigned s"
    by (cases s) (auto simp: scan_decimal_def is_digit_def)
  from sh have t: "trim s = s" by (intro trim_id) (auto dest: digit_not_ws)
  from sh x sd t have "StringToNumber s = Fin x"
    by (simp add: StringToNumber_def scan_radix_digits[OF assms(1)])
  with assms(2) x(1) have pos: "0 < x" by simp
  have "parseFloat_str (CHR ''-'' # s) = Fin (- x)"
    by (simp add: parseFloat_str_def is_ws_def scan_decimal_def x(2))
  with pos show ?thesis
    by (simp add: validatePrice_def parseFloat_def)
qed

text \<open>The definitions that evaluate a number, a price, a statement on concrete data.\<close>

lemmas eval_number =
  StringToNumber_def parseFloat_str_def trim_def is_ws_def scan_radix_def scan_decimal_def
  scan_unsigned_def scan_exponent_def is_digit_def digits_val_def digit_val_def mk_dec_def
  radix_val_def radix_digit_def

lemmas eval_price =
  validatePrice_def isNaN_def parseFloat_def q_ToNumber_def eval_number

lemmas eval_sent =
  sent_text_def sent_filters_def sent_filter_def sent_params_def select_where_def limit_offset_def
  spec_clauses_def js_offset_def js_sub_def present_def raw_def with_default_def destructure_def
  show_nat_small enumerate_simps

lemmas eval_listing =
  pg_def SQL_SELECT_REQUEST_def SQL_INSERT_PRODUCT_def SQL_INSERT_REQUEST_def
  SQL_UPDATE_PRODUCT_def SQL_UPDATE_REQUEST_def SQL_SEARCH_def
  parse_listing_def tokens_def parse_tail_def mk_cond_def cond_column_def cond_cmp_def
  placeholder_def sort_column_def direction_def lower_def exec_listing_def placeholders_def
  param_def pg_count_def window_def is_null_def num_key_def text_key_def
  is_digit_def digits_val_def digit_val_def pg_trim_def pg_space_def pg_digits_def
  scan_decimal_def scan_unsigned_def scan_exponent_def mk_dec_def

section \<open>The listing handler: facts\<close>

lemma where_given_cases:
  "where_given P p \<Longrightarrow> p = None \<or> (\<exists>s. p = Some (QStr s) \<and> P s)"
  by (auto simp: where_given_def split: option.splits qval.splits)


lemma nonneg_decimal_nonempty: "nonneg_decimal s \<Longrightarrow> s \<noteq> []"
  by (rule nonneg_decimal_shape(1))


lemma present_given_decimal: "where_given nonneg_decimal p \<Longrightarrow> present p = (p \<noteq> None)"
  by (auto dest!: where_given_cases simp: present_def nonneg_decimal_nonempty)

lemma valid_given_decimal: "where_given nonneg_decimal p \<Longrightarrow> \<not> invalid_price p"
  by (auto dest!: where_given_cases simp: invalid_price_def validatePrice_decimal)




text \<open>
  Once the two prices have passed, the handler sends one statement: the select over the
  filters it counts as present, the ordering with the two strings put into the text,
  and the limit and offset; it answers with the rows, or hands the error on.
\<close>

lemma list_products_run:
  assumes "\<not> invalid_price (q_min_price rq)" "\<not> invalid_price (q_max_price rq)"
  shows "list_products Q rq c =
     (case pool_query Q (sent_text rq) (sent_params rq) c of
        (Inr rows, c') \<Rightarrow> (json 200 (rows_json rows), c')
      | (Inl err, c') \<Rightarrow> (internal_error err, c'))"
proof (cases "present (q_category_id rq)"; cases "present (q_min_price rq)";
       cases "present (q_max_price rq)")
qed (simp_all add: assms list_products_def Let_def sent_filters_def sent_filter_def sent_params_def
      sent_text_def select_where_def limit_offset_def spec_clauses_def js_offset_def show_nat_small
      enumerate_simps)


section \<open>The listing statement and its parameters\<close>



section \<open>Prices that are refused\<close>




section \<open>The ordering is put into the text\<close>

text \<open>
  C6. Whatever strings are given for \<^verbatim>\<open>sort_by\<close> and \<^verbatim>\<open>order\<close>, the handler
  puts them into the text of the statement as they are, between \<^verbatim>\<open>ORDER BY\<close> and
  \<^verbatim>\<open>LIMIT\<close>; the rest of the text and the bound parameters do not depend on them,
  and no string is refused or replaced. So two requests that differ in one of the two
  strings send different texts.
\<close>

theorem sort_and_order_interpolated:
  assumes "\<not> invalid_price (q_min_price rq)" "\<not> invalid_price (q_max_price rq)"
  shows "log (snd (list_products Q (rq\<lparr>q_sort_by := Some (QStr s), q_order := Some (QStr od)\<rparr>) c)) =
           log c @ [(select_where (sent_filters rq) @ '' ORDER BY '' @ s @ '' '' @ od
                       @ limit_offset (length (sent_filters rq)),
                     sent_params rq)]
         \<and> (s \<noteq> s' \<longrightarrow>
              log (snd (list_products Q (rq\<lparr>q_sort_by := Some (QStr s), q_order := Some (QStr od)\<rparr>) c)) \<noteq>
              log (snd (list_products Q (rq\<lparr>q_sort_by := Some (QStr s'), q_order := Some (QStr od)\<rparr>) c)))
         \<and> (od \<noteq> od' \<longrightarrow>
              log (snd (list_products Q (rq\<lparr>q_sort_by := Some (QStr s), q_order := Some (QStr od)\<rparr>) c)) \<noteq>
              log (snd (list_products Q (rq\<lparr>q_sort_by := Some (QStr s), q_order := Some (QStr od')\<rparr>) c)))"
proof -
  have eq: "log (snd (list_products Q (rq\<lparr>q_sort_by := Some (QStr a), q_order := Some (QStr b)\<rparr>) c)) =
           log c @ [(select_where (sent_filters rq) @ '' ORDER BY '' @ a @ '' '' @ b
                       @ limit_offset (length (sent_filters rq)),
                     sent_params rq)]" for a b
  proof -
    let ?rq = "rq\<lparr>q_sort_by := Some (QStr a), q_order := Some (QStr b)\<rparr>"
    have v: "\<not> invalid_price (q_min_price ?rq)" "\<not> invalid_price (q_max_price ?rq)"
      using assms by simp_all
    have f: "sent_filters ?rq = sent_filters rq" "sent_params ?rq = sent_params rq"
      by (simp_all add: sent_filters_def sent_params_def js_offset_def)
    show ?thesis
      by (simp add: list_products_run[OF v] sent_text_def f with_default_def pool_query_def
          split: prod.splits sum.splits)
  qed
  show ?thesis by (simp add: eq select_where_def)
qed

theorem sort_and_order_interpolated_witness:
  "\<not> invalid_price (q_min_price no_filters) \<and> \<not> invalid_price (q_max_price no_filters) \<and>
   log (snd (list_products pg
     (no_filters\<lparr>q_sort_by := Some (QStr ''price; DROP TABLE products; --''),
        q_order := Some (QStr ''sideways'')\<rparr>) fresh)) =
     [(''SELECT * FROM products ORDER BY price; DROP TABLE products; -- sideways LIMIT $1 OFFSET $2'',
       [JNum (Fin 10), JNum (Fin 0)])]"
proof -
  have v: "\<not> invalid_price (q_min_price no_filters)" "\<not> invalid_price (q_max_price no_filters)"
    by (simp_all add: invalid_price_def no_filters_def)
  from sort_and_order_interpolated [OF v, where Q = pg and c = fresh
      and s = "''price; DROP TABLE products; --''" and od = "''sideways''"] v
  show ?thesis
    by (simp add: eval_sent no_filters_def fresh_def)
qed

section \<open>What the listing handler refuses\<close>

text \<open>
  C10. The listing handler answers 400 only for a price that fails its validation.
  Whenever the prices pass, whatever \<^verbatim>\<open>page\<close>, \<^verbatim>\<open>limit\<close>, \<^verbatim>\<open>category_id\<close>,
  \<^verbatim>\<open>sort_by\<close> and \<^verbatim>\<open>order\<close> are, one statement is sent, and its last two
  parameters are the limit as it was given (or the default 10) and the number
  \<open>(page - 1) * limit\<close>, which may be negative or not a number.
\<close>

theorem listing_rejects_only_prices:
  "(res_status (fst (list_products Q rq c)) = 400 \<longrightarrow>
      (\<exists>v. q_min_price rq = Some v \<and> q_truthy v \<and> \<not> validatePrice v) \<or>
      (\<exists>v. q_max_price rq = Some v \<and> q_truthy v \<and> \<not> validatePrice v))
   \<and> (\<not> invalid_price (q_min_price rq) \<and> \<not> invalid_price (q_max_price rq) \<longrightarrow>
        (\<exists>text ps. log (snd (list_products Q rq c)) =
           log c @ [(text, ps @ [p_js (destructure (Fin 10) (q_limit rq)),
             JNum (js_mul (js_sub (p_ToNumber (destructure (Fin 1) (q_page rq))) (Fin 1))
                    (p_ToNumber (destructure (Fin 10) (q_limit rq))))])]))"
proof (intro conjI impI)
  assume s: "res_status (fst (list_products Q rq c)) = 400"
  show "(\<exists>v. q_min_price rq = Some v \<and> q_truthy v \<and> \<not> validatePrice v) \<or>
      (\<exists>v. q_max_price rq = Some v \<and> q_truthy v \<and> \<not> validatePrice v)"
  proof (rule ccontr)
    assume "\<not> ?thesis"
    then have v: "\<not> invalid_price (q_min_price rq)" "\<not> invalid_price (q_max_price rq)"
      by (auto simp: invalid_price_def split: option.splits)
    from s show False
      by (simp add: list_products_run[OF v] json_def internal_error_def
          split: prod.splits sum.splits)
  qed
next
  assume "\<not> invalid_price (q_min_price rq) \<and> \<not> invalid_price (q_max_price rq)"
  then have v: "\<not> invalid_price (q_min_price rq)" "\<not> invalid_price (q_max_price rq)"
    by simp_all
  show "\<exists>text ps. log (snd (list_products Q rq c)) =
           log c @ [(text, ps @ [p_js (destructure (Fin 10) (q_limit rq)),
             JNum (js_mul (js_sub (p_ToNumber (destructure (Fin 1) (q_page rq))) (Fin 1))
                    (p_ToNumber (destructure (Fin 10) (q_limit rq))))])]"
    by (simp add: list_products_run[OF v] pool_query_def sent_params_def js_offset_def
        split: prod.splits sum.splits)
qed

theorem listing_rejects_only_prices_witness:
  "res_status (fst (list_products pg (no_filters\<lparr>q_min_price := Some (QStr ''-5'')\<rparr>) fresh)) = 400 \<and>
   ((\<exists>v. q_min_price (no_filters\<lparr>q_min_price := Some (QStr ''-5'')\<rparr>) = Some v \<and> q_truthy v \<and> \<not> validatePrice v) \<or>
    (\<exists>v. q_max_price (no_filters\<lparr>q_min_price := Some (QStr ''-5'')\<rparr>) = Some v \<and> q_truthy v \<and> \<not> validatePrice v)) \<and>
   \<not> invalid_price (q_min_price (no_filters\<lparr>q_page := Some (QStr ''abc''), q_limit := Some (QStr ''-3'')\<rparr>)) \<and>
   \<not> invalid_price (q_max_price (no_filters\<lparr>q_page := Some (QStr ''abc''), q_limit := Some (QStr ''-3'')\<rparr>)) \<and>
   (\<exists>text ps.
      log (snd (list_products pg
        (no_filters\<lparr>q_page := Some (QStr ''abc''), q_limit := Some (QStr ''-3'')\<rparr>) fresh)) =
      [(text, ps @ [JStr ''-3'', JNum NaN])]) \<and>
   (\<exists>text ps.
      log (snd (list_products pg
        (no_filters\<lparr>q_page := Some (QStr ''0''), q_limit := Some (QStr ''5'')\<rparr>) fresh)) =
      [(text, ps @ [JStr ''5'', JNum (Fin (- 5))])])"
proof -
  have s: "res_status (fst (list_products pg (no_filters\<lparr>q_min_price := Some (QStr ''-5'')\<rparr>) fresh)) = 400"
    by (simp add: list_products_def invalid_price_def no_filters_def eval_price json_def)
  have v: "\<not> invalid_price (q_min_price (no_filters\<lparr>q_page := Some (QStr p), q_limit := Some (QStr l)\<rparr>))"
    "\<not> invalid_price (q_max_price (no_filters\<lparr>q_page := Some (QStr p), q_limit := Some (QStr l)\<rparr>))" for p l
    by (simp_all add: invalid_price_def no_filters_def)
  have n: "q_ToNumber (QStr ''abc'') = NaN" "q_ToNumber (QStr ''-3'') = Fin (- 3)"
    "q_ToNumber (QStr ''0'') = Fin 0" "q_ToNumber (QStr ''5'') = Fin 5"
    by (simp_all add: q_ToNumber_def eval_number)
  from s v
    listing_rejects_only_prices [of pg "no_filters\<lparr>q_min_price := Some (QStr ''-5'')\<rparr>" fresh]
    listing_rejects_only_prices [of pg "no_filters\<lparr>q_page := Some (QStr ''abc''), q_limit := Some (QStr ''-3'')\<rparr>" fresh]
    listing_rejects_only_prices [of pg "no_filters\<lparr>q_page := Some (QStr ''0''), q_limit := Some (QStr ''5'')\<rparr>" fresh]
  show ?thesis
    by (simp add: n destructure_def js_sub_def fresh_def)
qed

section \<open>Deciding a request: the refusals\<close>

text \<open>
  C2. A decision whose status is not one of the two strings \<^verbatim>\<open>approved\<close> and
  \<^verbatim>\<open>rejected\<close> is answered with 400 and the connection is left as it was: nothing
  is sent to the store, whatever the store is. Otherwise, when the lookup of the
  request returns no row, the answer is 404 and the lookup is the only statement that
  was sent: no product is inserted and no status is updated. In the reference store
  this is the case of an identifier that reads as an integer and that no request has,
  and the tables are then unchanged.
\<close>

theorem decide_request_refusals:
  "(field body ''status'' \<noteq> JStr ''approved'' \<and> field body ''status'' \<noteq> JStr ''rejected'' \<longrightarrow>
      decide_request Q ident body c = (json 400 (error_body INVALID_STATUS), c))
   \<and> ((field body ''status'' = JStr ''approved'' \<or> field body ''status'' = JStr ''rejected'') \<and>
       fst (Q SQL_SELECT_REQUEST [JStr ident] (db c)) = Inr [] \<longrightarrow>
         fst (decide_request Q ident body c) = json 404 (error_body ''Product request not found'') \<and>
         log (snd (decide_request Q ident body c)) = log c @ [(SQL_SELECT_REQUEST, [JStr ident])] \<and>
         db (snd (decide_request Q ident body c)) = snd (Q SQL_SELECT_REQUEST [JStr ident] (db c)))
   \<and> ((field body ''status'' = JStr ''approved'' \<or> field body ''status'' = JStr ''rejected'') \<and>
       pg_int (JStr ident) = Some n \<and> (\<forall>r \<in> set (product_requests d). r_id r \<noteq> n) \<longrightarrow>
         decide_request pg ident body \<lparr>db = d, log = l\<rparr> =
           (json 404 (error_body ''Product request not found''),
            \<lparr>db = d, log = l @ [(SQL_SELECT_REQUEST, [JStr ident])]\<rparr>))"
proof (intro conjI impI)
  assume "field body ''status'' \<noteq> JStr ''approved'' \<and> field body ''status'' \<noteq> JStr ''rejected''"
  then show "decide_request Q ident body c = (json 400 (error_body INVALID_STATUS), c)"
    by (simp add: decide_request_def)
next
  assume a: "(field body ''status'' = JStr ''approved'' \<or> field body ''status'' = JStr ''rejected'') \<and>
       fst (Q SQL_SELECT_REQUEST [JStr ident] (db c)) = Inr []"
  then obtain d' where q: "Q SQL_SELECT_REQUEST [JStr ident] (db c) = (Inr [], d')"
    by (cases "Q SQL_SELECT_REQUEST [JStr ident] (db c)") auto
  from a q show "fst (decide_request Q ident body c) = json 404 (error_body ''Product request not found'')"
    by (auto simp: decide_request_def pool_query_def)
  from a q show "log (snd (decide_request Q ident body c)) = log c @ [(SQL_SELECT_REQUEST, [JStr ident])]"
    by (auto simp: decide_request_def pool_query_def)
  from a q show "db (snd (decide_request Q ident body c)) = snd (Q SQL_SELECT_REQUEST [JStr ident] (db c))"
    by (auto simp: decide_request_def pool_query_def)
next
  assume a: "(field body ''status'' = JStr ''approved'' \<or> field body ''status'' = JStr ''rejected'') \<and>
       pg_int (JStr ident) = Some n \<and> (\<forall>r \<in> set (product_requests d). r_id r \<noteq> n)"
  then have "filter (\<lambda>r. r_id r = n) (product_requests d) = []"
    by (simp add: filter_empty_conv)
  with a have "pg SQL_SELECT_REQUEST [JStr ident] d = (Inr [], d)"
    by (simp add: pg_fixed select_request_def)
  with a show "decide_request pg ident body \<lparr>db = d, log = l\<rparr> =
           (json 404 (error_body ''Product request not found''),
            \<lparr>db = d, log = l @ [(SQL_SELECT_REQUEST, [JStr ident])]\<rparr>)"
    by (auto simp: decide_request_def pool_query_def)
qed

theorem decide_request_refusals_witness:
  "(field [(''status'', JStr ''maybe'')] ''status'' \<noteq> JStr ''approved'' \<and>
    field [(''status'', JStr ''maybe'')] ''status'' \<noteq> JStr ''rejected'') \<and>
   decide_request pg ''7'' [(''status'', JStr ''maybe'')] fresh =
     (json 400 (error_body INVALID_STATUS), fresh) \<and>
   field [(''status'', JStr ''rejected'')] ''status'' = JStr ''rejected'' \<and>
   pg_int (JStr ''7'') = Some 7 \<and> list_all (\<lambda>r. r_id r \<noteq> 7) (product_requests shop) \<and>
   decide_request pg ''7'' [(''status'', JStr ''rejected'')] \<lparr>db = shop, log = []\<rparr> =
     (json 404 (error_body ''Product request not found''),
      \<lparr>db = shop, log = [(SQL_SELECT_REQUEST, [JStr ''7''])]\<rparr>)"
proof -
  have h1: "field [(''status'', JStr ''maybe'')] ''status'' \<noteq> JStr ''approved'' \<and>
    field [(''status'', JStr ''maybe'')] ''status'' \<noteq> JStr ''rejected''"
    by (simp add: field_def)
  have h2: "field [(''status'', JStr ''rejected'')] ''status'' = JStr ''rejected''"
    by (simp add: field_def)
  have h3: "pg_int (JStr ''7'') = Some 7"
    by (simp add: pg_trim_def pg_space_def pg_digits_def is_digit_def digits_val_def digit_val_def)
  have h4: "\<forall>r \<in> set (product_requests shop). r_id r \<noteq> 7"
    by (simp add: shop_def plum_wish_def)
  from h1 h2 h3 h4
    decide_request_refusals [of "[(''status'', JStr ''maybe'')]" pg "''7''" fresh 7 shop "[]"]
    decide_request_refusals [of "[(''status'', JStr ''rejected'')]" pg "''7''" fresh 7 shop "[]"]
  show ?thesis by (simp add: list_all_iff)
qed

section \<open>The reference store: facts\<close>

lemma find_filter: "find P xs = Some x \<Longrightarrow> \<exists>ys. filter P xs = x # ys"
  by (induction xs) (auto split: if_splits)

lemma request_row_fields:
  "field (request_row r) ''name'' = r_name r"
  "field (request_row r) ''description'' = r_description r"
  "field (request_row r) ''price'' = r_price r"
  "field (request_row r) ''category_id'' = r_category_id r"
  "field (request_row r) ''image_url'' = r_image_url r"
  "field (request_row r) ''affiliate_url'' = r_affiliate_url r"
  "field (request_row r) ''address'' = r_address r"
  by (simp_all add: field_def request_row_def)

lemma prepareValue_JStr [simp]: "prepareValue (JStr s) = JStr s"
  by (simp add: prepareValue_def)

lemmas eval_int =
  pg_trim_def pg_space_def pg_digits_def is_digit_def digits_val_def digit_val_def

section \<open>Deciding a request: the effect\<close>

text \<open>
  C1. Deciding a request that exists, in the reference store. With the status
  \<^verbatim>\<open>approved\<close>, exactly one row is added to the products: it takes the next
  identifier and its name, description, price, category, image URL, affiliate URL and
  address are those of the request (of the first row that the lookup returns); the
  submitting user is not copied. Then the status of the request is set to
  \<^verbatim>\<open>approved\<close>. With the status \<^verbatim>\<open>rejected\<close> the products are left as they are and
  the status is set to \<^verbatim>\<open>rejected\<close>. The log shows the statements in the order in
  which they were sent. (A cell goes through \<open>prepareValue\<close>, which changes nothing
  but an undefined value.)
\<close>

theorem decide_request_effect:
  assumes "pg_int (JStr ident) = Some n"
    and "find (\<lambda>x. r_id x = n) (product_requests d) = Some r"
  shows "(field body ''status'' = JStr ''approved'' \<longrightarrow>
           decide_request pg ident body \<lparr>db = d, log = l\<rparr> =
             (json 200 (JObj [(''message'', JStr ''Product request approved'')]),
              \<lparr>db = d\<lparr>products := products d @
                          [\<lparr>p_id = next_product_id d,
                            p_name = prepareValue (r_name r),
                            p_description = prepareValue (r_description r),
                            p_price = prepareValue (r_price r),
                            p_category_id = prepareValue (r_category_id r),
                            p_image_url = prepareValue (r_image_url r),
                            p_affiliate_url = prepareValue (r_affiliate_url r),
                            p_address = prepareValue (r_address r)\<rparr>],
                        next_product_id := next_product_id d + 1,
                        product_requests :=
                          map (\<lambda>x. if r_id x = n then x\<lparr>r_status := JStr ''approved''\<rparr> else x)
                            (product_requests d)\<rparr>,
               log = l @ [(SQL_SELECT_REQUEST, [JStr ident]),
                          (SQL_INSERT_PRODUCT,
                           [r_name r, r_description r, r_price r, r_category_id r,
                            r_image_url r, r_affiliate_url r, r_address r]),
                          (SQL_UPDATE_REQUEST, [JStr ''approved'', JStr ident])]\<rparr>))
       \<and> (field body ''status'' = JStr ''rejected'' \<longrightarrow>
           decide_request pg ident body \<lparr>db = d, log = l\<rparr> =
             (json 200 (JObj [(''message'', JStr ''Product request rejected'')]),
              \<lparr>db = d\<lparr>product_requests :=
                          map (\<lambda>x. if r_id x = n then x\<lparr>r_status := JStr ''rejected''\<rparr> else x)
                            (product_requests d)\<rparr>,
               log = l @ [(SQL_SELECT_REQUEST, [JStr ident]),
                          (SQL_UPDATE_REQUEST, [JStr ''rejected'', JStr ident])]\<rparr>))"
proof -
  from find_filter[OF assms(2)] obtain ys where
    f: "filter (\<lambda>x. r_id x = n) (product_requests d) = r # ys" by blast
  have sel: "pg SQL_SELECT_REQUEST [JStr ident] d = (Inr (request_row r # map request_row ys), d)"
    by (simp add: pg_fixed select_request_def assms(1) f del: pg_int.simps)
  have upd: "pg SQL_UPDATE_REQUEST [JStr st, JStr ident] d' =
      (Inr [], d'\<lparr>product_requests :=
                  map (\<lambda>x. if r_id x = n then x\<lparr>r_status := JStr st\<rparr> else x)
                    (product_requests d')\<rparr>)" for st d'
    by (simp add: pg_fixed update_request_status_def assms(1) del: pg_int.simps)
  show ?thesis
    by (simp add: decide_request_def Let_def pool_query_def sel upd pg_fixed(2)
        insert_product_def request_row_fields del: pg_int.simps)
qed

theorem decide_request_effect_witness:
  "pg_int (JStr ''1'') = Some 1 \<and>
   find (\<lambda>x. r_id x = 1) (product_requests shop) = Some plum_wish \<and>
   field [(''status'', JStr ''approved'')] ''status'' = JStr ''approved'' \<and>
   products (db (snd (decide_request pg ''1'' [(''status'', JStr ''approved'')] fresh))) =
     [pear, apple,
      \<lparr>p_id = 3, p_name = JStr ''Plum'', p_description = JStr ''blue'',
       p_price = JNum (Fin 4), p_category_id = JNum (Fin 3),
       p_image_url = JStr ''http://img.test/plum.png'',
       p_affiliate_url = JStr ''http://shop.test/plum'', p_address = JNull\<rparr>] \<and>
   map r_status (product_requests (db (snd
     (decide_request pg ''1'' [(''status'', JStr ''approved'')] fresh)))) = [JStr ''approved''] \<and>
   field [(''status'', JStr ''rejected'')] ''status'' = JStr ''rejected'' \<and>
   products (db (snd (decide_request pg ''1'' [(''status'', JStr ''rejected'')] fresh))) =
     [pear, apple] \<and>
   map r_status (product_requests (db (snd
     (decide_request pg ''1'' [(''status'', JStr ''rejected'')] fresh)))) = [JStr ''rejected'']"
proof -
  have a: "pg_int (JStr ''1'') = Some 1"
    by (simp add: eval_int)
  have b: "find (\<lambda>x. r_id x = 1) (product_requests shop) = Some plum_wish"
    by (simp add: shop_def plum_wish_def)
  have c: "field [(''status'', JStr st)] ''status'' = JStr st" for st
    by (simp add: field_def)
  from decide_request_effect [OF a b, of "[(''status'', JStr ''approved'')]" "[]"]
       decide_request_effect [OF a b, of "[(''status'', JStr ''rejected'')]" "[]"] a b c
  show ?thesis
    by (simp add: fresh_def shop_def plum_wish_def prepareValue_def del: pg_int.simps)
qed

section \<open>Submitting a request\<close>

lemma validation_errors:
  "validationResult (request_chains V) body =
     (if notEmpty V (field body ''name'') then []
      else [field_error ''name'' ''Name is required'']) @
     (if notEmpty V (field body ''description'') then []
      else [field_error ''description'' ''Description is required'']) @
     (if isFloat_gt0 V (field body ''price'') then []
      else [field_error ''price'' ''Price must be a positive number'']) @
     (if isInt_gt0 V (field body ''category_id'') then []
      else [field_error ''category_id'' ''Category ID must be a positive integer'']) @
     (if isURL V (field body ''image_url'') then []
      else [field_error ''image_url'' ''Image URL must be a valid URL'']) @
     (if isURL V (field body ''affiliate_url'') then []
      else [field_error ''affiliate_url'' ''Affiliate URL must be a valid URL'']) @
     (if isInt_gt0 V (field body ''user_id'') then []
      else [field_error ''user_id'' ''User ID must be a positive integer'']) @
     (if field body ''address'' = JUndefined \<or> isString V (field body ''address'') then []
      else [field_error ''address'' ''Address must be a string''])"
  by (simp add: validationResult_def request_chains_def chain_errors_def Let_def
      body_chain_def optional_chain_def)

lemma validation_passes:
  "validationResult (request_chains V) body = [] \<longleftrightarrow> all_fields_valid V body"
  by (simp add: validation_errors all_fields_valid_def)

text \<open>
  C8. The errors of a submission are the messages of the chains that fail, field by
  field and in the order of the chains. If some field is not valid, there is at least
  one error, the answer is 400 with the list of the errors, and the connection is left
  as it was: nothing is inserted, whatever the store is. If all fields are valid, the
  reference store gets one new request with the next identifier, the submitted values
  and the status \<^verbatim>\<open>pending\<close>, and the answer is that row. What makes a value valid
  (a price above zero, an identifier that is a positive integer, a well-formed URL) is
  decided by the validators of the library, which are parameters here.
\<close>

theorem submit_request_spec:
  "validationResult (request_chains V) body =
     (if notEmpty V (field body ''name'') then []
      else [field_error ''name'' ''Name is required'']) @
     (if notEmpty V (field body ''description'') then []
      else [field_error ''description'' ''Description is required'']) @
     (if isFloat_gt0 V (field body ''price'') then []
      else [field_error ''price'' ''Price must be a positive number'']) @
     (if isInt_gt0 V (field body ''category_id'') then []
      else [field_error ''category_id'' ''Category ID must be a positive integer'']) @
     (if isURL V (field body ''image_url'') then []
      else [field_error ''image_url'' ''Image URL must be a valid URL'']) @
     (if isURL V (field body ''affiliate_url'') then []
      else [field_error ''affiliate_url'' ''Affiliate URL must be a valid URL'']) @
     (if isInt_gt0 V (field body ''user_id'') then []
      else [field_error ''user_id'' ''User ID must be a positive integer'']) @
     (if field body ''address'' = JUndefined \<or> isString V (field body ''address'') then []
      else [field_error ''address'' ''Address must be a string''])
   \<and> (\<not> all_fields_valid V body \<longrightarrow>
        validationResult (request_chains V) body \<noteq> [] \<and>
        submit_request V Q body c =
          (json 400 (JObj [(''errors'', JArr (validationResult (request_chains V) body))]), c))
   \<and> (all_fields_valid V body \<longrightarrow>
        submit_request V pg body \<lparr>db = d, log = l\<rparr> =
          (json 200
             (JObj (request_row
                \<lparr>r_id = next_request_id d,
                 r_user_id = prepareValue (field body ''user_id''),
                 r_name = prepareValue (field body ''name''),
                 r_description = prepareValue (field body ''description''),
                 r_price = prepareValue (field body ''price''),
                 r_category_id = prepareValue (field body ''category_id''),
                 r_image_url = prepareValue (field body ''image_url''),
                 r_affiliate_url = prepareValue (field body ''affiliate_url''),
                 r_address = prepareValue (field body ''address''),
                 r_status = JStr ''pending''\<rparr>)),
           \<lparr>db = d\<lparr>product_requests := product_requests d @
                       [\<lparr>r_id = next_request_id d,
                         r_user_id = prepareValue (field body ''user_id''),
                         r_name = prepareValue (field body ''name''),
                         r_description = prepareValue (field body ''description''),
                         r_price = prepareValue (field body ''price''),
                         r_category_id = prepareValue (field body ''category_id''),
                         r_image_url = prepareValue (field body ''image_url''),
                         r_affiliate_url = prepareValue (field body ''affiliate_url''),
                         r_address = prepareValue (field body ''address''),
                         r_status = JStr ''pending''\<rparr>],
                     next_request_id := next_request_id d + 1\<rparr>,
            log = l @ [(SQL_INSERT_REQUEST,
                        [field body ''user_id'', field body ''name'', field body ''description'',
                         field body ''price'', field body ''category_id'',
                         field body ''image_url'', field body ''affiliate_url'',
                         field body ''address''])]\<rparr>))"
proof (intro conjI impI)
  show "validationResult (request_chains V) body =
     (if notEmpty V (field body ''name'') then []
      else [field_error ''name'' ''Name is required'']) @
     (if notEmpty V (field body ''description'') then []
      else [field_error ''description'' ''Description is required'']) @
     (if isFloat_gt0 V (field body ''price'') then []
      else [field_error ''price'' ''Price must be a positive number'']) @
     (if isInt_gt0 V (field body ''category_id'') then []
      else [field_error ''category_id'' ''Category ID must be a positive integer'']) @
     (if isURL V (field body ''image_url'') then []
      else [field_error ''image_url'' ''Image URL must be a valid URL'']) @
     (if isURL V (field body ''affiliate_url'') then []
      else [field_error ''affiliate_url'' ''Affiliate URL must be a valid URL'']) @
     (if isInt_gt0 V (field body ''user_id'') then []
      else [field_error ''user_id'' ''User ID must be a positive integer'']) @
     (if field body ''address'' = JUndefined \<or> isString V (field body ''address'') then []
      else [field_error ''address'' ''Address must be a string''])"
    by (rule validation_errors)
next
  assume "\<not> all_fields_valid V body"
  then show "validationResult (request_chains V) body \<noteq> []"
    by (simp add: validation_passes)
next
  assume "\<not> all_fields_valid V body"
  then have "validationResult (request_chains V) body \<noteq> []"
    by (simp add: validation_passes)
  then show "submit_request V Q body c =
          (json 400 (JObj [(''errors'', JArr (validationResult (request_chains V) body))]), c)"
    by (simp add: submit_request_def Let_def)
next
  assume "all_fields_valid V body"
  then have "validationResult (request_chains V) body = []"
    by (simp add: validation_passes)
  then show "submit_request V pg body \<lparr>db = d, log = l\<rparr> =
          (json 200
             (JObj (request_row
                \<lparr>r_id = next_request_id d,
                 r_user_id = prepareValue (field body ''user_id''),
                 r_name = prepareValue (field body ''name''),
                 r_description = prepareValue (field body ''description''),
                 r_price = prepareValue (field body ''price''),
                 r_category_id = prepareValue (field body ''category_id''),
                 r_image_url = prepareValue (field body ''image_url''),
                 r_affiliate_url = prepareValue (field body ''affiliate_url''),
                 r_address = prepareValue (field body ''address''),
                 r_status = JStr ''pending''\<rparr>)),
           \<lparr>db = d\<lparr>product_requests := product_requests d @
                       [\<lparr>r_id = next_request_id d,
                         r_user_id = prepareValue (field body ''user_id''),
                         r_name = prepareValue (field body ''name''),
                         r_description = prepareValue (field body ''description''),
                         r_price = prepareValue (field body ''price''),
                         r_category_id = prepareValue (field body ''category_id''),
                         r_image_url = prepareValue (field body ''image_url''),
                         r_affiliate_url = prepareValue (field body ''affiliate_url''),
                         r_address = prepareValue (field body ''address''),
                         r_status = JStr ''pending''\<rparr>],
                     next_request_id := next_request_id d + 1\<rparr>,
            log = l @ [(SQL_INSERT_REQUEST,
                        [field body ''user_id'', field body ''name'', field body ''description'',
                         field body ''price'', field body ''category_id'',
                         field body ''image_url'', field body ''affiliate_url'',
                         field body ''address''])]\<rparr>)"
    by (simp add: submit_request_def Let_def pool_query_def pg_fixed insert_request_def
        new_request_def status_default_def first_row_json_def)
qed

theorem submit_request_spec_witness:
  "\<not> all_fields_valid sample_validators ((''price'', JNum (Fin (- 5))) # plum_submission) \<and>
   submit_request sample_validators pg ((''price'', JNum (Fin (- 5))) # plum_submission) fresh =
     (json 400
        (JObj [(''errors'', JArr [field_error ''price'' ''Price must be a positive number''])]),
      fresh) \<and>
   all_fields_valid sample_validators plum_submission \<and>
   submit_request sample_validators pg plum_submission \<lparr>db = shop, log = []\<rparr> =
     (json 200
        (JObj [(''id'', JNum (Fin 2)), (''user_id'', JNum (Fin 8)), (''name'', JStr ''Plum''),
               (''description'', JStr ''blue''), (''price'', JNum (Fin 4)),
               (''category_id'', JNum (Fin 3)),
               (''image_url'', JStr ''http://img.test/plum.png''),
               (''affiliate_url'', JStr ''http://shop.test/plum''), (''address'', JNull),
               (''status'', JStr ''pending'')]),
      \<lparr>db = shop\<lparr>product_requests :=
                    [plum_wish,
                     plum_wish\<lparr>r_id := 2, r_status := JStr ''pending''\<rparr>],
                  next_request_id := 3\<rparr>,
       log = [(SQL_INSERT_REQUEST,
               [JNum (Fin 8), JStr ''Plum'', JStr ''blue'', JNum (Fin 4), JNum (Fin 3),
                JStr ''http://img.test/plum.png'', JStr ''http://shop.test/plum'',
                JUndefined])]\<rparr>)"
proof -
  have bad: "\<not> all_fields_valid sample_validators ((''price'', JNum (Fin (- 5))) # plum_submission)"
    by (simp add: all_fields_valid_def sample_validators_def field_def plum_submission_def)
  have good: "all_fields_valid sample_validators plum_submission"
    by (simp add: all_fields_valid_def sample_validators_def field_def plum_submission_def)
  have errs: "validationResult (request_chains sample_validators)
                ((''price'', JNum (Fin (- 5))) # plum_submission) =
              [field_error ''price'' ''Price must be a positive number'']"
    by (simp add: validation_errors sample_validators_def field_def plum_submission_def)
  from bad good
    submit_request_spec [of sample_validators "(''price'', JNum (Fin (- 5))) # plum_submission"
      pg fresh shop "[]"]
    submit_request_spec [of sample_validators plum_submission pg fresh shop "[]"]
  show ?thesis
    by (simp add: errs)
       (simp add: field_def plum_submission_def request_row_def shop_def plum_wish_def
          prepareValue_def)
qed

section \<open>Updating a product\<close>

text \<open>
  C9, as amended. The update sends one statement whose parameters are the name, the
  description, the price, the category, the image URL and the address of the body, as
  they are (an absent one as undefined), and the identifier. In the reference store
  every product with that identifier gets these six values (undefined as null),
  whether or not the body has them; the affiliate URL is not among them and keeps its
  value. The answer is 200 with the first updated row, or with an empty body when no
  product has the identifier, and the store is then unchanged.
\<close>

theorem update_product_effect:
  fixes body :: props
  defines "upd \<equiv> \<lambda>p. p\<lparr>p_name := prepareValue (field body ''name''),
                          p_description := prepareValue (field body ''description''),
                          p_price := prepareValue (field body ''price''),
                          p_category_id := prepareValue (field body ''category_id''),
                          p_image_url := prepareValue (field body ''image_url''),
                          p_address := prepareValue (field body ''address'')\<rparr>"
  assumes "pg_int (JStr ident) = Some n"
  shows "log (snd (update_product Q ident body c)) =
           log c @ [(SQL_UPDATE_PRODUCT,
                     [field body ''name'', field body ''description'', field body ''price'',
                      field body ''category_id'', field body ''image_url'',
                      field body ''address'', JStr ident])]
       \<and> db (snd (update_product pg ident body \<lparr>db = d, log = l\<rparr>)) =
           d\<lparr>products := map (\<lambda>p. if p_id p = n then upd p else p) (products d)\<rparr>
       \<and> map p_affiliate_url (products (db (snd (update_product pg ident body \<lparr>db = d, log = l\<rparr>)))) =
           map p_affiliate_url (products d)
       \<and> res_status (fst (update_product pg ident body \<lparr>db = d, log = l\<rparr>)) = 200
       \<and> (find (\<lambda>p. p_id p = n) (products d) = Some p \<longrightarrow>
            res_body (fst (update_product pg ident body \<lparr>db = d, log = l\<rparr>)) =
              JObj (product_row (upd p)))
       \<and> (find (\<lambda>p. p_id p = n) (products d) = None \<longrightarrow>
            res_body (fst (update_product pg ident body \<lparr>db = d, log = l\<rparr>)) = JUndefined \<and>
            db (snd (update_product pg ident body \<lparr>db = d, log = l\<rparr>)) = d)"
proof -
  have u: "set_product (field body ''name'') (field body ''description'') (field body ''price'')
             (field body ''category_id'') (field body ''image_url'') (field body ''address'') = upd"
    by (simp add: set_product_def upd_def fun_eq_iff)
  have run: "update_product pg ident body \<lparr>db = d, log = l\<rparr> =
      (json 200 (first_row_json (map (product_row \<circ> upd) (filter (\<lambda>p. p_id p = n) (products d)))),
       \<lparr>db = d\<lparr>products := map (\<lambda>p. if p_id p = n then upd p else p) (products d)\<rparr>,
        log = l @ [(SQL_UPDATE_PRODUCT,
                     [field body ''name'', field body ''description'', field body ''price'',
                      field body ''category_id'', field body ''image_url'',
                      field body ''address'', JStr ident])]\<rparr>)"
    by (simp add: update_product_def Let_def pool_query_def pg_fixed update_product_row_def
        assms(2) u del: pg_int.simps)
  have 1: "log (snd (update_product Q ident body c)) =
           log c @ [(SQL_UPDATE_PRODUCT,
                     [field body ''name'', field body ''description'', field body ''price'',
                      field body ''category_id'', field body ''image_url'',
                      field body ''address'', JStr ident])]"
    by (simp add: update_product_def Let_def pool_query_def split: prod.splits sum.splits)
  have 3: "map p_affiliate_url (map (\<lambda>p. if p_id p = n then upd p else p) (products d)) =
           map p_affiliate_url (products d)"
    by (induction "products d") (simp_all add: upd_def)
  have 5: "find (\<lambda>p. p_id p = n) (products d) = Some p \<Longrightarrow>
      first_row_json (map (product_row \<circ> upd) (filter (\<lambda>p. p_id p = n) (products d))) =
      JObj (product_row (upd p))"
    by (auto dest!: find_filter simp: first_row_json_def)
  have 6: "find (\<lambda>p. p_id p = n) (products d) = None \<Longrightarrow>
      filter (\<lambda>p. p_id p = n) (products d) = [] \<and>
      map (\<lambda>p. if p_id p = n then upd p else p) (products d) = products d"
    by (auto simp: find_None_iff filter_empty_conv intro: map_idI)
  show ?thesis
    using 1 3 5 6 by (auto simp: run json_def first_row_json_def)
qed

theorem update_product_effect_witness:
  "pg_int (JStr ''1'') = Some 1 \<and>
   find (\<lambda>p. p_id p = 1) (products shop) = Some apple \<and>
   res_body (fst (update_product pg ''1'' apple_update \<lparr>db = shop, log = []\<rparr>)) =
     JObj [(''id'', JNum (Fin 1)), (''name'', JStr ''Apple pie''),
           (''description'', JStr ''baked''), (''price'', JStr ''3.00''),
           (''category_id'', JNum (Fin 4)), (''image_url'', JStr ''http://img.test/pie.png''),
           (''affiliate_url'', JStr ''http://shop.test/apple''),
           (''address'', JStr ''Mill Lane'')] \<and>
   pg_int (JStr ''9'') = Some 9 \<and>
   find (\<lambda>p. p_id p = 9) (products shop) = None \<and>
   res_status (fst (update_product pg ''9'' apple_update \<lparr>db = shop, log = []\<rparr>)) = 200 \<and>
   res_body (fst (update_product pg ''9'' apple_update \<lparr>db = shop, log = []\<rparr>)) = JUndefined \<and>
   db (snd (update_product pg ''9'' apple_update \<lparr>db = shop, log = []\<rparr>)) = shop"
proof -
  have a: "pg_int (JStr ''1'') = Some 1" "pg_int (JStr ''9'') = Some 9"
    by (simp_all add: eval_int)
  have b: "find (\<lambda>p. p_id p = 1) (products shop) = Some apple"
    "find (\<lambda>p. p_id p = 9) (products shop) = None"
    by (simp_all add: shop_def apple_def pear_def)
  note known = update_product_effect [OF a(1), where body = apple_update and Q = pg
    and c = fresh and d = shop and l = "[]" and p = apple]
  note unknown = update_product_effect [OF a(2), where body = apple_update and Q = pg
    and c = fresh and d = shop and l = "[]" and p = apple]
  from known b(1) have
    "res_body (fst (update_product pg ''1'' apple_update \<lparr>db = shop, log = []\<rparr>)) =
       JObj (product_row
         (apple\<lparr>p_name := prepareValue (field apple_update ''name''),
                p_description := prepareValue (field apple_update ''description''),
                p_price := prepareValue (field apple_update ''price''),
                p_category_id := prepareValue (field apple_update ''category_id''),
                p_image_url := prepareValue (field apple_update ''image_url''),
                p_address := prepareValue (field apple_update ''address'')\<rparr>))"
    by blast
  then have r1:
    "res_body (fst (update_product pg ''1'' apple_update \<lparr>db = shop, log = []\<rparr>)) =
     JObj [(''id'', JNum (Fin 1)), (''name'', JStr ''Apple pie''),
           (''description'', JStr ''baked''), (''price'', JStr ''3.00''),
           (''category_id'', JNum (Fin 4)), (''image_url'', JStr ''http://img.test/pie.png''),
           (''affiliate_url'', JStr ''http://shop.test/apple''),
           (''address'', JStr ''Mill Lane'')]"
    by (simp add: apple_def apple_update_def field_def product_row_def prepareValue_def)
  from unknown b(2) have r2:
    "res_status (fst (update_product pg ''9'' apple_update \<lparr>db = shop, log = []\<rparr>)) = 200"
    "res_body (fst (update_product pg ''9'' apple_update \<lparr>db = shop, log = []\<rparr>)) = JUndefined"
    "db (snd (update_product pg ''9'' apple_update \<lparr>db = shop, log = []\<rparr>)) = shop"
    by blast+
  from a b r1 r2 show ?thesis by blast
qed

lemma update_apple:
  "update_product pg ''1'' apple_update fresh =
     (json 200
        (JObj [(''id'', JNum (Fin 1)), (''name'', JStr ''Apple pie''),
               (''description'', JStr ''baked''), (''price'', JStr ''3.00''),
               (''category_id'', JNum (Fin 4)), (''image_url'', JStr ''http://img.test/pie.png''),
               (''affiliate_url'', JStr ''http://shop.test/apple''),
               (''address'', JStr ''Mill Lane'')]),
      \<lparr>db = shop\<lparr>products :=
                    [pear,
                     \<lparr>p_id = 1, p_name = JStr ''Apple pie'', p_description = JStr ''baked'',
                      p_price = JStr ''3.00'', p_category_id = JNum (Fin 4),
                      p_image_url = JStr ''http://img.test/pie.png'',
                      p_affiliate_url = JStr ''http://shop.test/apple'',
                      p_address = JStr ''Mill Lane''\<rparr>]\<rparr>,
       log = [(SQL_UPDATE_PRODUCT,
               [JStr ''Apple pie'', JStr ''baked'', JStr ''3.00'', JNum (Fin 4),
                JStr ''http://img.test/pie.png'', JStr ''Mill Lane'', JStr ''1''])]\<rparr>)"
  by (simp add: update_product_def Let_def pool_query_def pg_fixed update_product_row_def fresh_def
      shop_def apple_def pear_def apple_update_def field_def set_product_def prepareValue_def
      product_row_def first_row_json_def eval_int)

text \<open>
  C9 as the specification states it counts the affiliate URL among the fields that an
  update writes. The handler reads six properties of the body and the statement sets six
  columns: an update that carries a new affiliate URL changes the other fields and
  leaves the affiliate URL of the product as it was.
\<close>

theorem update_affiliate_counterexample:
  "field apple_update ''affiliate_url'' = JStr ''http://shop.test/pie'' \<and>
   map p_name (products (db (snd (update_product pg ''1'' apple_update fresh)))) =
     [JStr ''Pear'', JStr ''Apple pie''] \<and>
   map p_affiliate_url (products (db (snd (update_product pg ''1'' apple_update fresh)))) =
     [JStr ''http://shop.test/pear'', JStr ''http://shop.test/apple'']"
  by (simp add: update_apple) (simp add: apple_update_def field_def pear_def)

section \<open>Searching products\<close>











section \<open>The prices of the listed products\<close>

lemma parse_tail_conds: "parse_tail cs ws = Some L \<Longrightarrow> l_conds L = cs"
  by (auto simp: parse_tail_def split: list.splits if_splits option.splits)

lemma those_map_Some:
  "those (map f xs) = Some ys \<Longrightarrow> x \<in> set xs \<Longrightarrow> \<exists>y \<in> set ys. f x = Some y"
proof (induction xs arbitrary: ys)
  case Nil
  then show ?case by simp
next
  case (Cons a xs)
  then show ?case by (auto split: option.splits)
qed

lemma set_window: "set (window count skip xs) \<subseteq> set xs"
  by (auto simp: window_def split: option.splits dest: in_set_takeD in_set_dropD)

lemma exec_listing_rows:
  assumes "exec_listing L ps d = (Inr rows, d')"
  shows "\<exists>prods. rows = map product_row prods \<and> set prods \<subseteq> set (products d) \<and>
           (\<forall>c \<in> set (l_conds L). \<exists>f. cond_pred ps c = Some f \<and> (\<forall>p \<in> set prods. f p))"
proof -
  from assms obtain preds count skip where
    t: "those (map (cond_pred ps) (l_conds L)) = Some preds"
    and r: "rows = map product_row (window count skip
              (if l_desc L
               then rev (sort_key (l_key L) (filter (\<lambda>p. list_all (\<lambda>f. f p) preds) (products d)))
               else sort_key (l_key L) (filter (\<lambda>p. list_all (\<lambda>f. f p) preds) (products d))))"
    by (auto simp: exec_listing_def Let_def split: if_splits option.splits prod.splits)
  let ?prods = "window count skip
              (if l_desc L
               then rev (sort_key (l_key L) (filter (\<lambda>p. list_all (\<lambda>f. f p) preds) (products d)))
               else sort_key (l_key L) (filter (\<lambda>p. list_all (\<lambda>f. f p) preds) (products d)))"
  have "set ?prods \<subseteq>
          set (if l_desc L
               then rev (sort_key (l_key L) (filter (\<lambda>p. list_all (\<lambda>f. f p) preds) (products d)))
               else sort_key (l_key L) (filter (\<lambda>p. list_all (\<lambda>f. f p) preds) (products d)))"
    by (rule set_window)
  also have "\<dots> = {p \<in> set (products d). list_all (\<lambda>f. f p) preds}"
    by auto
  finally have sub: "set ?prods \<subseteq> {p \<in> set (products d). list_all (\<lambda>f. f p) preds}" .
  have "\<exists>f. cond_pred ps c = Some f \<and> (\<forall>p \<in> set ?prods. f p)" if "c \<in> set (l_conds L)" for c
  proof -
    from those_map_Some[OF t that] obtain f where f: "f \<in> set preds" "cond_pred ps c = Some f"
      by blast
    with sub show ?thesis by (auto simp: list_all_iff)
  qed
  with r sub show ?thesis by blast
qed

lemma price_cond:
  assumes "cond_pred ps (ColPrice, opr, k) = Some f" "f p" "param k ps = Some v"
  shows "\<exists>m x. pg_numeric v = Some m \<and> pg_numeric (p_price p) = Some x \<and> compare opr x m"
  using assms by (auto split: if_splits option.splits)

lemmas eval_built =
  sent_text_def sent_filters_def sent_filter_def select_where_def limit_offset_def
  spec_clauses_def show_nat_small enumerate_simps

lemma pg_sent:
  "pg (sent_text rq) ps d =
     (case parse_listing (sent_text rq) of
        None \<Rightarrow> (Inl ''syntax error'', d)
      | Some L \<Rightarrow> exec_listing L ps d)"
proof (cases "present (q_category_id rq)"; cases "present (q_min_price rq)";
       cases "present (q_max_price rq)")
qed (simp_all add: pg_def eval_built SQL_SELECT_REQUEST_def SQL_INSERT_PRODUCT_def
      SQL_INSERT_REQUEST_def SQL_UPDATE_PRODUCT_def SQL_UPDATE_REQUEST_def SQL_SEARCH_def)

lemmas eval_parse =
  parse_listing_def tokens_def mk_cond_def cond_column_def cond_cmp_def placeholder_def
  lower_def is_digit_def digits_val_def digit_val_def

lemma sent_conds:
  assumes "parse_listing (sent_text rq) = Some L"
  shows "(present (q_min_price rq) \<longrightarrow>
           (\<exists>k. (ColPrice, Ge, k) \<in> set (l_conds L) \<and>
                param k (sent_params rq) = Some (raw (q_min_price rq))))
       \<and> (present (q_max_price rq) \<longrightarrow>
           (\<exists>k. (ColPrice, Le, k) \<in> set (l_conds L) \<and>
                param k (sent_params rq) = Some (raw (q_max_price rq))))"
proof -
  obtain cs ws where t: "parse_tail cs ws = Some L"
    and cs: "cs = (if present (q_category_id rq) then [(ColCategoryId, Eq, 1)] else [])
               @ (if present (q_min_price rq)
                  then [(ColPrice, Ge, if present (q_category_id rq) then 2 else 1)] else [])
               @ (if present (q_max_price rq)
                  then [(ColPrice, Le,
                          if present (q_category_id rq)
                          then (if present (q_min_price rq) then 3 else 2)
                          else (if present (q_min_price rq) then 2 else 1))] else [])"
  proof (cases "present (q_category_id rq)"; cases "present (q_min_price rq)";
         cases "present (q_max_price rq)")
  qed (use assms in \<open>simp_all add: eval_built eval_parse\<close>)
  from parse_tail_conds[OF t] cs show ?thesis
    by (auto simp: param_def sent_params_def sent_filters_def sent_filter_def)
qed

lemma listed_rows:
  assumes "\<not> invalid_price (q_min_price rq)" "\<not> invalid_price (q_max_price rq)"
    and "fst (list_products pg rq \<lparr>db = d, log = l\<rparr>) = json 200 body"
  shows "\<exists>L rows d'. parse_listing (sent_text rq) = Some L \<and>
           exec_listing L (sent_params rq) d = (Inr rows, d') \<and> body = rows_json rows"
proof -
  obtain r d' where q: "pg (sent_text rq) (sent_params rq) d = (r, d')"
    by (cases "pg (sent_text rq) (sent_params rq) d") auto
  from assms(3) q obtain rows where r: "r = Inr rows" "body = rows_json rows"
    by (cases r) (auto simp: list_products_run[OF assms(1,2)] pool_query_def json_def
        internal_error_def)
  from q r(1) show ?thesis
    using r(2) by (auto simp: pg_sent split: option.splits)
qed

lemma list_cheap:
  "list_products pg
     (no_filters\<lparr>q_min_price := Some (QStr ''1.5''), q_max_price := Some (QStr ''5'')\<rparr>)
     \<lparr>db = shop, log = []\<rparr> =
   (json 200 (rows_json [product_row apple]),
    \<lparr>db = shop,
     log = [(''SELECT * FROM products WHERE price >= $1 AND price <= $2 ORDER BY id ASC LIMIT $3 OFFSET $4'',
             [JStr ''1.5'', JStr ''5'', JNum (Fin 10), JNum (Fin 0)])]\<rparr>)"
proof -
  let ?rq = "no_filters\<lparr>q_min_price := Some (QStr ''1.5''), q_max_price := Some (QStr ''5'')\<rparr>"
  have v: "\<not> invalid_price (q_min_price ?rq)" "\<not> invalid_price (q_max_price ?rq)"
    by (simp_all add: invalid_price_def no_filters_def eval_price)
  have q: "pg ''SELECT * FROM products WHERE price >= $1 AND price <= $2 ORDER BY id ASC LIMIT $3 OFFSET $4''
             [JStr ''1.5'', JStr ''5'', JNum (Fin 10), JNum (Fin 0)] shop =
           (Inr [product_row apple], shop)"
    by (simp add: eval_listing shop_def apple_def pear_def)
  show ?thesis
    by (subst list_products_run[OF v])
       (simp add: eval_sent no_filters_def q pool_query_def)
qed

text \<open>
  C5. For a listing request whose price bounds are well-formed, every product in an
  answer of the reference store is a product of the catalogue whose price is within
  the bounds: at least \<^verbatim>\<open>min_price\<close> if that is given, at most \<^verbatim>\<open>max_price\<close> if
  that is given, each bound on its own. This holds whatever the other parameters are;
  the ordering strings that the store does not understand make it refuse the
  statement, and then no product is returned.
\<close>

theorem listed_prices_within_bounds:
  assumes "where_given nonneg_decimal (q_min_price rq)"
    and "where_given nonneg_decimal (q_max_price rq)"
    and "fst (list_products pg rq \<lparr>db = d, log = l\<rparr>) = json 200 body"
  shows "\<exists>prods. body = rows_json (map product_row prods) \<and>
           set prods \<subseteq> set (products d) \<and> list_all (within_bounds rq) prods"
proof -
  note v = valid_given_decimal[OF assms(1)] valid_given_decimal[OF assms(2)]
  from listed_rows[OF v assms(3)] obtain L rows d' where
    p: "parse_listing (sent_text rq) = Some L"
    and e: "exec_listing L (sent_params rq) d = (Inr rows, d')"
    and b: "body = rows_json rows" by blast
  from exec_listing_rows[OF e] obtain prods where
    rows: "rows = map product_row prods" and sub: "set prods \<subseteq> set (products d)"
    and cs: "\<forall>c \<in> set (l_conds L). \<exists>f. cond_pred (sent_params rq) c = Some f \<and> (\<forall>p \<in> set prods. f p)"
    by blast
  note sc = sent_conds[OF p]
  have lower: "bound_holds (\<lambda>m x. m \<le> x) (q_min_price rq) p" if "p \<in> set prods" for p
  proof (cases "q_min_price rq")
    case None
    then show ?thesis by (simp add: bound_holds_def)
  next
    case (Some v)
    with assms(1) have pr: "present (q_min_price rq)"
      by (simp add: present_given_decimal)
    with sc obtain k where k: "(ColPrice, Ge, k) \<in> set (l_conds L)"
      "param k (sent_params rq) = Some (raw (q_min_price rq))" by blast
    from cs k(1) that obtain f where "cond_pred (sent_params rq) (ColPrice, Ge, k) = Some f" "f p"
      by blast
    from price_cond[OF this k(2)] Some show ?thesis
      by (auto simp: bound_holds_def raw_def)
  qed
  have upper: "bound_holds (\<lambda>m x. x \<le> m) (q_max_price rq) p" if "p \<in> set prods" for p
  proof (cases "q_max_price rq")
    case None
    then show ?thesis by (simp add: bound_holds_def)
  next
    case (Some v)
    with assms(2) have pr: "present (q_max_price rq)"
      by (simp add: present_given_decimal)
    with sc obtain k where k: "(ColPrice, Le, k) \<in> set (l_conds L)"
      "param k (sent_params rq) = Some (raw (q_max_price rq))" by blast
    from cs k(1) that obtain f where "cond_pred (sent_params rq) (ColPrice, Le, k) = Some f" "f p"
      by blast
    from price_cond[OF this k(2)] Some show ?thesis
      by (auto simp: bound_holds_def raw_def)
  qed
  from lower upper have "list_all (within_bounds rq) prods"
    by (simp add: list_all_iff within_bounds_def)
  with b rows sub show ?thesis by blast
qed

theorem listed_prices_within_bounds_witness:
  "where_given nonneg_decimal
     (q_min_price (no_filters\<lparr>q_min_price := Some (QStr ''1.5''), q_max_price := Some (QStr ''5'')\<rparr>)) \<and>
   where_given nonneg_decimal
     (q_max_price (no_filters\<lparr>q_min_price := Some (QStr ''1.5''), q_max_price := Some (QStr ''5'')\<rparr>)) \<and>
   fst (list_products pg
          (no_filters\<lparr>q_min_price := Some (QStr ''1.5''), q_max_price := Some (QStr ''5'')\<rparr>)
          \<lparr>db = shop, log = []\<rparr>) = json 200 (rows_json [product_row apple]) \<and>
   (\<exists>prods. rows_json [product_row apple] = rows_json (map product_row prods) \<and>
      set prods \<subseteq> set (products shop) \<and>
      list_all (within_bounds
        (no_filters\<lparr>q_min_price := Some (QStr ''1.5''), q_max_price := Some (QStr ''5'')\<rparr>)) prods)"
proof -
  let ?rq = "no_filters\<lparr>q_min_price := Some (QStr ''1.5''), q_max_price := Some (QStr ''5'')\<rparr>"
  have a: "where_given nonneg_decimal (q_min_price ?rq)"
    "where_given nonneg_decimal (q_max_price ?rq)"
    by (simp_all add: where_given_def no_filters_def nonneg_decimal_def is_digit_def)
  have r: "fst (list_products pg ?rq \<lparr>db = shop, log = []\<rparr>) = json 200 (rows_json [product_row apple])"
    by (simp add: list_cheap)
  from listed_prices_within_bounds [OF a r] a r show ?thesis by blast
qed

end
